theory Spec2Isabelle
  imports Complex_Main "HOL-Library.Word"
begin

section \<open>Values of type double\<close>

text \<open>
  The integrator computes in C doubles. A double is modelled by its value: a finite real
  (\<open>Fin 0\<close> is the zero with sign bit clear), the zero with sign bit set, the two
  infinities, or a NaN. The special values follow the rules of the arithmetic the C code
  runs on: a quotient by zero is an infinity, \<open>0/0\<close> and \<open>inf - inf\<close> are NaN, every
  comparison with a NaN is false. The result of an operation on finite operands is the
  exact real result: rounding, overflow and underflow are not part of the model. The
  theorems below are about the structure of the computation. Of an operation on finite
  operands they use only what holds of doubles as well: the sums, products and quotients
  of zeros, the quarter of an argument above \<open>0.5\<close>, and that a change of sign
  commutes with a quotient. The example is evaluated on the exact values.
\<close>

datatype dbl = Fin real | NZero | PInf | NInf | NaN

fun is_inf :: "dbl \<Rightarrow> bool" where
  "is_inf PInf = True"
| "is_inf NInf = True"
| "is_inf _ = False"

fun is_zero :: "dbl \<Rightarrow> bool" where
  "is_zero (Fin r) = (r = 0)"
| "is_zero NZero = True"
| "is_zero _ = False"

fun is_finite :: "dbl \<Rightarrow> bool" where
  "is_finite (Fin r) = True"
| "is_finite NZero = True"
| "is_finite _ = False"

text \<open>The sign bit (of a value that is not a NaN) and the real value of a finite double.\<close>

fun signbit :: "dbl \<Rightarrow> bool" where
  "signbit (Fin r) = (r < 0)"
| "signbit NZero = True"
| "signbit PInf = False"
| "signbit NInf = True"
| "signbit NaN = False"

fun valof :: "dbl \<Rightarrow> real" where
  "valof (Fin r) = r"
| "valof _ = 0"

definition inf_of :: "bool \<Rightarrow> dbl" where
  "inf_of s = (if s then NInf else PInf)"

definition zero_of :: "bool \<Rightarrow> dbl" where
  "zero_of s = (if s then NZero else Fin 0)"

text \<open>The finite double of value \<open>r\<close>; \<open>s\<close> is the sign bit it gets when \<open>r\<close> is zero.\<close>

definition fin_of :: "bool \<Rightarrow> real \<Rightarrow> dbl" where
  "fin_of s r = (if r = 0 then zero_of s else Fin r)"

fun dneg :: "dbl \<Rightarrow> dbl" where
  "dneg (Fin r) = (if r = 0 then NZero else Fin (- r))"
| "dneg NZero = Fin 0"
| "dneg PInf = NInf"
| "dneg NInf = PInf"
| "dneg NaN = NaN"

definition dadd :: "dbl \<Rightarrow> dbl \<Rightarrow> dbl" where
  "dadd a b =
     (if a = NaN \<or> b = NaN then NaN
      else if is_inf a then (if is_inf b \<and> a \<noteq> b then NaN else a)
      else if is_inf b then b
      else if a = NZero \<and> b = NZero then NZero
      else Fin (valof a + valof b))"

definition dsub :: "dbl \<Rightarrow> dbl \<Rightarrow> dbl" where
  "dsub a b = dadd a (dneg b)"

definition dmul :: "dbl \<Rightarrow> dbl \<Rightarrow> dbl" where
  "dmul a b =
     (if a = NaN \<or> b = NaN then NaN
      else if is_inf a \<or> is_inf b then
        (if is_zero a \<or> is_zero b then NaN else inf_of (signbit a \<noteq> signbit b))
      else fin_of (signbit a \<noteq> signbit b) (valof a * valof b))"

definition ddiv :: "dbl \<Rightarrow> dbl \<Rightarrow> dbl" where
  "ddiv a b =
     (if a = NaN \<or> b = NaN then NaN
      else if is_inf a then (if is_inf b then NaN else inf_of (signbit a \<noteq> signbit b))
      else if is_inf b then zero_of (signbit a \<noteq> signbit b)
      else if is_zero b then (if is_zero a then NaN else inf_of (signbit a \<noteq> signbit b))
      else fin_of (signbit a \<noteq> signbit b) (valof a / valof b))"

text \<open>The comparisons \<open>a < b\<close> and \<open>a > b\<close> of C: false as soon as one side is a NaN.\<close>

definition dlt :: "dbl \<Rightarrow> dbl \<Rightarrow> bool" where
  "dlt a b =
     (if a = NaN \<or> b = NaN then False
      else if a = PInf \<or> b = NInf then False
      else if a = NInf \<or> b = PInf then True
      else valof a < valof b)"

definition dgt :: "dbl \<Rightarrow> dbl \<Rightarrow> bool" where
  "dgt a b = dlt b a"

fun fabs :: "dbl \<Rightarrow> dbl" where
  "fabs (Fin r) = Fin \<bar>r\<bar>"
| "fabs NZero = Fin 0"
| "fabs PInf = PInf"
| "fabs NInf = PInf"
| "fabs NaN = NaN"

fun dsqrt :: "dbl \<Rightarrow> dbl" where
  "dsqrt (Fin r) = (if r < 0 then NaN else Fin (sqrt r))"
| "dsqrt NZero = NZero"
| "dsqrt PInf = PInf"
| "dsqrt NInf = NaN"
| "dsqrt NaN = NaN"

text \<open>
  \<open>pow(x, n)\<close> for an exponent that is an unsigned integer converted to double:
  \<open>pow(x, 0)\<close> is 1 for every \<open>x\<close>, a NaN included.
\<close>

definition dpow :: "dbl \<Rightarrow> nat \<Rightarrow> dbl" where
  "dpow x n =
     (if n = 0 then Fin 1
      else case x of
          Fin r \<Rightarrow> Fin (r ^ n)
        | NZero \<Rightarrow> (if odd n then NZero else Fin 0)
        | PInf \<Rightarrow> PInf
        | NInf \<Rightarrow> (if odd n then NInf else PInf)
        | NaN \<Rightarrow> NaN)"

section \<open>Outcomes of a computation\<close>

text \<open>
  A read or write outside an array is a fault. A computation that returns gives
  \<open>Some (Inr v)\<close>, one that faults gives \<open>Some (Inl e)\<close>, and one that never
  returns is \<open>None\<close>.
\<close>

datatype fault = TableIndexOutOfRange | ParticleIndexOutOfRange

type_synonym 'a comp = "(fault + 'a) option"

definition ret :: "'a \<Rightarrow> 'a comp" where
  "ret v = Some (Inr v)"

definition lift :: "fault + 'a \<Rightarrow> 'a comp" where
  "lift r = Some r"

definition bnd :: "'a comp \<Rightarrow> ('a \<Rightarrow> 'b comp) \<Rightarrow> 'b comp" where
  "bnd m f = Option.bind m (\<lambda>r. case r of Inl e \<Rightarrow> Some (Inl e) | Inr v \<Rightarrow> f v)"

lemma bnd_mono [partial_function_mono]:
  assumes mf: "mono_option B" and mg: "\<And>y. mono_option (\<lambda>f. C y f)"
  shows "mono_option (\<lambda>f. bnd (B f) (\<lambda>y. C y f))"
  unfolding bnd_def
  by (intro bind_mono mf, rename_tac r, case_tac r) (simp_all add: mg option.const_mono)

section \<open>Stumpff functions\<close>

text \<open>The table \<open>invfactorial\<close> of the reciprocals of the factorials, as the source lists it.\<close>

definition invfactorial :: "dbl list" where
  "invfactorial =
  [Fin 1,
   Fin 1,
   Fin (1 / 2),
   Fin (1 / 6),
   Fin (1 / 24),
   Fin (1 / 120),
   Fin (1 / 720),
   Fin (1 / 5040),
   Fin (1 / 40320),
   Fin (1 / 362880),
   Fin (1 / 3628800),
   Fin (1 / 39916800),
   Fin (1 / 479001600),
   Fin (1 / 6227020800),
   Fin (1 / 87178291200),
   Fin (1 / 1307674368000),
   Fin (1 / 20922789888000),
   Fin (1 / 355687428096000),
   Fin (1 / 6402373705728000),
   Fin (1 / 121645100408832000),
   Fin (1 / 2432902008176640000),
   Fin (1 / 51090942171709440000),
   Fin (1 / 1124000727777607680000),
   Fin (1 / 25852016738884976640000),
   Fin (1 / 620448401733239439360000),
   Fin (1 / 15511210043330985984000000),
   Fin (1 / 403291461126605635584000000),
   Fin (1 / 10888869450418352160768000000),
   Fin (1 / 304888344611713860501504000000),
   Fin (1 / 8841761993739701954543616000000),
   Fin (1 / 265252859812191058636308480000000),
   Fin (1 / 8222838654177922817725562880000000),
   Fin (1 / 263130836933693530167218012160000000),
   Fin (1 / 8683317618811886495518194401280000000),
   Fin (1 / 295232799039604140847618609643520000000)]"

text \<open>Reading \<open>invfactorial[k]\<close>: outside the table the read is a fault.\<close>

definition table_at :: "nat \<Rightarrow> fault + dbl" where
  "table_at k = (if k < length invfactorial then Inr (invfactorial ! k) else Inl TableIndexOutOfRange)"

text \<open>
  The index \<open>n+2*j\<close> of the source is computed in unsigned 32-bit arithmetic. The loop
  counter \<open>j\<close> stays below 13 and is a natural number here.
\<close>

definition series_index :: "32 word \<Rightarrow> nat \<Rightarrow> nat" where
  "series_index n j = unat (n + 2 * of_nat j)"

text \<open>
  The loop of \<open>c_n_series\<close>, entered at counter \<open>j\<close> with the running sum \<open>c_n\<close>.
\<close>

function c_n_series_loop :: "32 word \<Rightarrow> dbl \<Rightarrow> nat \<Rightarrow> dbl \<Rightarrow> fault + dbl" where
  "c_n_series_loop n z j c_n =
     (if j < 13 then
        (case table_at (series_index n j) of
           Inl e \<Rightarrow> Inl e
         | Inr invf \<Rightarrow>
             (let term = dmul (dpow (dneg z) j) invf;
                  c_n' = dadd c_n term
              in if dlt (fabs (ddiv term c_n')) (Fin (1 / 10 ^ 17)) then Inr c_n'
                 else c_n_series_loop n z (j + 1) c_n'))
      else Inr c_n)"
  by pat_completeness auto
termination
  by (relation "measure (\<lambda>(n, z, j, c_n). 13 - j)") auto

declare c_n_series_loop.simps [simp del]

definition c_n_series :: "32 word \<Rightarrow> dbl \<Rightarrow> fault + dbl" where
  "c_n_series n z = c_n_series_loop n z 0 (Fin 0)"

text \<open>
  The function \<open>c\<close>. Its recursion has no bound in the source, so a call that never
  returns has the value \<open>None\<close>. The \<open>switch\<close> has the cases 0 to 5 and no default:
  every other \<open>n\<close> leaves it and reaches the final \<open>return\<close>. The calls inside one
  expression have no effect on the state, so the order in which they run does not change
  the value; they are taken from left to right.
\<close>

partial_function (option) c :: "32 word \<Rightarrow> dbl \<Rightarrow> dbl comp" where
  "c n z =
     (if dgt z (Fin (1 / 2)) then
        (if n = 0 then
           bnd (c 3 (ddiv z (Fin 4))) (\<lambda>c3.
           bnd (c 1 (ddiv z (Fin 4))) (\<lambda>c1.
             let cn4 = ddiv (dmul c3 (dadd (Fin 1) c1)) (Fin 8);
                 cn2 = dsub (ddiv (Fin 1) (Fin 2)) (dmul z cn4);
                 cn0 = dsub (Fin 1) (dmul z cn2)
             in ret cn0))
         else if n = 1 then
           bnd (c 5 (ddiv z (Fin 4))) (\<lambda>c5.
           bnd (c 4 (ddiv z (Fin 4))) (\<lambda>c4.
           bnd (c 3 (ddiv z (Fin 4))) (\<lambda>c3.
           bnd (c 2 (ddiv z (Fin 4))) (\<lambda>c2.
             let cn5 = ddiv (dadd (dadd c5 c4) (dmul c3 c2)) (Fin 16);
                 cn3 = dsub (ddiv (Fin 1) (Fin 6)) (dmul z cn5);
                 cn1 = dsub (Fin 1) (dmul z cn3)
             in ret cn1))))
         else if n = 2 then
           bnd (c 3 (ddiv z (Fin 4))) (\<lambda>c3.
           bnd (c 1 (ddiv z (Fin 4))) (\<lambda>c1.
             let cn4 = ddiv (dmul c3 (dadd (Fin 1) c1)) (Fin 8);
                 cn2 = dsub (ddiv (Fin 1) (Fin 2)) (dmul z cn4)
             in ret cn2))
         else if n = 3 then
           bnd (c 5 (ddiv z (Fin 4))) (\<lambda>c5.
           bnd (c 4 (ddiv z (Fin 4))) (\<lambda>c4.
           bnd (c 3 (ddiv z (Fin 4))) (\<lambda>c3.
           bnd (c 2 (ddiv z (Fin 4))) (\<lambda>c2.
             let cn5 = ddiv (dadd (dadd c5 c4) (dmul c3 c2)) (Fin 16);
                 cn3 = dsub (ddiv (Fin 1) (Fin 6)) (dmul z cn5)
             in ret cn3))))
         else if n = 4 then
           bnd (c 3 (ddiv z (Fin 4))) (\<lambda>c3.
           bnd (c 1 (ddiv z (Fin 4))) (\<lambda>c1.
             let cn4 = ddiv (dmul c3 (dadd (Fin 1) c1)) (Fin 8)
             in ret cn4))
         else if n = 5 then
           bnd (c 5 (ddiv z (Fin 4))) (\<lambda>c5.
           bnd (c 4 (ddiv z (Fin 4))) (\<lambda>c4.
           bnd (c 3 (ddiv z (Fin 4))) (\<lambda>c3.
           bnd (c 2 (ddiv z (Fin 4))) (\<lambda>c2.
             let cn5 = ddiv (dadd (dadd c5 c4) (dmul c3 c2)) (Fin 16)
             in ret cn5))))
         else lift (c_n_series n z))
      else lift (c_n_series n z))"

section \<open>The universal functions and the Newton iteration\<close>

definition integrator_G :: "32 word \<Rightarrow> dbl \<Rightarrow> dbl \<Rightarrow> dbl comp" where
  "integrator_G n beta X =
     bnd (c n (dmul (dmul beta X) X)) (\<lambda>cn. ret (dmul (dpow X (unat n)) cn))"

text \<open>
  The \<open>do ... while (1)\<close> loop of \<open>kepler_step\<close>, entered with the current \<open>X\<close>;
  \<open>h\<close> is the value of the global \<open>dt\<close>. The only way out of the loop is the
  \<open>break\<close>.
\<close>

partial_function (option) newton_loop ::
  "dbl \<Rightarrow> dbl \<Rightarrow> dbl \<Rightarrow> dbl \<Rightarrow> dbl \<Rightarrow> dbl \<Rightarrow> dbl comp" where
  "newton_loop r0 eta zeta beta h X =
     bnd (integrator_G 1 beta X) (\<lambda>G1.
     bnd (integrator_G 2 beta X) (\<lambda>G2.
     bnd (integrator_G 3 beta X) (\<lambda>G3.
       let s = dsub (dadd (dadd (dmul r0 X) (dmul eta G2)) (dmul zeta G3)) h;
           sp = dadd (dadd r0 (dmul eta G1)) (dmul zeta G2);
           dX = ddiv (dneg s) sp;
           X' = dadd X dX
       in if dlt (fabs (ddiv dX X')) (Fin (1 / 10 ^ 15)) then ret X'
          else newton_loop r0 eta zeta beta h X')))"

section \<open>Particles and global state\<close>

text \<open>
  Modelled from the spec: \<open>struct particle\<close> is declared in \<open>particle.h\<close>, which is
  not among the sources. A body has a position, a velocity and a mass; the fields
  \<open>x, y, z, vx, vy, vz, m\<close> that \<open>kepler_step\<close> uses carry the prefix \<open>p_\<close> here.
\<close>

record particle =
  p_x :: dbl
  p_y :: dbl
  p_z :: dbl
  p_vx :: dbl
  p_vy :: dbl
  p_vz :: dbl
  p_m :: dbl

text \<open>
  Modelled from the spec: the globals \<open>particles\<close>, \<open>N\<close>, \<open>t\<close> and \<open>dt\<close> are
  declared in \<open>particle.h\<close> and \<open>main.h\<close>. The array \<open>particles\<close> is a list, whose
  length is the number of particles the array has room for.
\<close>

record globals =
  particles :: "particle list"
  N :: int
  t :: dbl
  dt :: dbl

definition particle_at :: "globals \<Rightarrow> int \<Rightarrow> fault + particle" where
  "particle_at s i =
     (if 0 \<le> i \<and> i < int (length (particles s)) then Inr (particles s ! nat i)
      else Inl ParticleIndexOutOfRange)"

text \<open>An assignment to a field of \<open>particles[i]\<close>, for an index inside the array.\<close>

definition write_particle :: "globals \<Rightarrow> int \<Rightarrow> (particle \<Rightarrow> particle) \<Rightarrow> globals" where
  "write_particle s i upd = s\<lparr>particles := (particles s)[nat i := upd (particles s ! nat i)]\<rparr>"

section \<open>The Kepler step and the driver\<close>

text \<open>
  The six assignments that end \<open>kepler_step\<close>, in the order of the source. Each one
  reads the fields of \<open>particles[i]\<close> as they are when it runs.
\<close>

definition gauss_update :: "globals \<Rightarrow> int \<Rightarrow> dbl \<Rightarrow> dbl \<Rightarrow> dbl \<Rightarrow> dbl \<Rightarrow> globals" where
  "gauss_update s i f g fd gd =
     (let s1 = write_particle s i (\<lambda>p. p\<lparr>p_x := dadd (dmul f (p_x p)) (dmul g (p_vx p))\<rparr>);
          s2 = write_particle s1 i (\<lambda>p. p\<lparr>p_y := dadd (dmul f (p_y p)) (dmul g (p_vy p))\<rparr>);
          s3 = write_particle s2 i (\<lambda>p. p\<lparr>p_z := dadd (dmul f (p_z p)) (dmul g (p_vz p))\<rparr>);
          s4 = write_particle s3 i (\<lambda>p. p\<lparr>p_vx := dadd (dmul fd (p_x p)) (dmul gd (p_vx p))\<rparr>);
          s5 = write_particle s4 i (\<lambda>p. p\<lparr>p_vy := dadd (dmul fd (p_y p)) (dmul gd (p_vy p))\<rparr>);
          s6 = write_particle s5 i (\<lambda>p. p\<lparr>p_vz := dadd (dmul fd (p_z p)) (dmul gd (p_vz p))\<rparr>)
      in s6)"

definition kepler_step :: "globals \<Rightarrow> int \<Rightarrow> globals comp" where
  "kepler_step s i =
     bnd (lift (particle_at s 0)) (\<lambda>p0.
     bnd (lift (particle_at s i)) (\<lambda>p1.
       let M = p_m p0;
           r0 = dsqrt (dadd (dadd (dmul (p_x p1) (p_x p1)) (dmul (p_y p1) (p_y p1)))
                            (dmul (p_z p1) (p_z p1)));
           v2 = dadd (dadd (dmul (p_vx p1) (p_vx p1)) (dmul (p_vy p1) (p_vy p1)))
                     (dmul (p_vz p1) (p_vz p1));
           beta = dsub (ddiv (dmul (Fin 2) M) r0) v2;
           eta = dadd (dadd (dmul (p_x p1) (p_vx p1)) (dmul (p_y p1) (p_vy p1)))
                      (dmul (p_z p1) (p_vz p1));
           zeta = dsub M (dmul beta r0)
       in
         bnd (newton_loop r0 eta zeta beta (dt s) (Fin 0)) (\<lambda>X.
         bnd (integrator_G 1 beta X) (\<lambda>G1.
         bnd (integrator_G 2 beta X) (\<lambda>G2.
         bnd (integrator_G 3 beta X) (\<lambda>G3.
           let r = dadd (dadd r0 (dmul eta G1)) (dmul zeta G2);
               f = dsub (Fin 1) (ddiv (dmul M G2) r0);
               g = dsub (dt s) (dmul M G3);
               fd = ddiv (dmul (dneg M) G1) (dmul r0 r);
               gd = dsub (Fin 1) (ddiv (dmul M G2) r)
           in ret (gauss_update s i f g fd gd)))))))"

definition integrator_part1 :: "globals \<Rightarrow> globals comp" where
  "integrator_part1 s = ret s"

text \<open>The \<open>for\<close> loop of \<open>integrator_part2\<close>, entered with the counter \<open>i\<close>.\<close>

partial_function (option) part2_loop :: "globals \<Rightarrow> int \<Rightarrow> globals comp" where
  "part2_loop s i =
     (if i < N s then bnd (kepler_step s i) (\<lambda>s'. part2_loop s' (i + 1)) else ret s)"

definition integrator_part2 :: "globals \<Rightarrow> globals comp" where
  "integrator_part2 s = bnd (part2_loop s 1) (\<lambda>s'. ret (s'\<lparr>t := dadd (t s') (dt s')\<rparr>))"

section \<open>The quantities of the specification\<close>

text \<open>
  The invariants of one step, as functions of the body \<open>p\<close> and of the central mass
  \<open>M\<close>: \<open>r0\<close> is the length of the position, \<open>v2\<close> the square of the speed,
  \<open>eta\<close> the product of position and velocity, \<open>beta = 2 M / r0 - v2\<close> and
  \<open>zeta = M - beta r0\<close>.
\<close>

definition kepler_r0 :: "particle \<Rightarrow> dbl" where
  "kepler_r0 p = dsqrt (dadd (dadd (dmul (p_x p) (p_x p)) (dmul (p_y p) (p_y p))) (dmul (p_z p) (p_z p)))"

definition kepler_v2 :: "particle \<Rightarrow> dbl" where
  "kepler_v2 p = dadd (dadd (dmul (p_vx p) (p_vx p)) (dmul (p_vy p) (p_vy p))) (dmul (p_vz p) (p_vz p))"

definition kepler_eta :: "particle \<Rightarrow> dbl" where
  "kepler_eta p = dadd (dadd (dmul (p_x p) (p_vx p)) (dmul (p_y p) (p_vy p))) (dmul (p_z p) (p_vz p))"

definition kepler_beta :: "dbl \<Rightarrow> particle \<Rightarrow> dbl" where
  "kepler_beta M p = dsub (ddiv (dmul (Fin 2) M) (kepler_r0 p)) (kepler_v2 p)"

definition kepler_zeta :: "dbl \<Rightarrow> particle \<Rightarrow> dbl" where
  "kepler_zeta M p = dsub M (dmul (kepler_beta M p) (kepler_r0 p))"

text \<open>
  The radius after the step and the coefficients of Gauss:
  \<open>r = r0 + eta G1 + zeta G2\<close>, \<open>f = 1 - M G2 / r0\<close>, \<open>g = dt - M G3\<close>,
  \<open>fd = - M G1 / (r0 r)\<close>, \<open>gd = 1 - M G2 / r\<close>.
\<close>

definition gauss_r :: "dbl \<Rightarrow> dbl \<Rightarrow> dbl \<Rightarrow> dbl \<Rightarrow> dbl \<Rightarrow> dbl" where
  "gauss_r r0 eta zeta G1 G2 = dadd (dadd r0 (dmul eta G1)) (dmul zeta G2)"

definition gauss_f :: "dbl \<Rightarrow> dbl \<Rightarrow> dbl \<Rightarrow> dbl" where
  "gauss_f M r0 G2 = dsub (Fin 1) (ddiv (dmul M G2) r0)"

definition gauss_g :: "dbl \<Rightarrow> dbl \<Rightarrow> dbl \<Rightarrow> dbl" where
  "gauss_g h M G3 = dsub h (dmul M G3)"

definition gauss_fd :: "dbl \<Rightarrow> dbl \<Rightarrow> dbl \<Rightarrow> dbl \<Rightarrow> dbl" where
  "gauss_fd M r0 r G1 = ddiv (dmul (dneg M) G1) (dmul r0 r)"

definition gauss_gd :: "dbl \<Rightarrow> dbl \<Rightarrow> dbl \<Rightarrow> dbl" where
  "gauss_gd M r G2 = dsub (Fin 1) (ddiv (dmul M G2) r)"

text \<open>
  The universal Kepler equation \<open>s(X) = r0 X + eta G2(X) + zeta G3(X) - dt\<close> and its
  derivative \<open>sp(X) = r0 + eta G1(X) + zeta G2(X)\<close>. One step of Newton's method goes
  from \<open>X\<close> to \<open>X - s/sp\<close>; \<open>newton_step\<close> gives the pair of the increment
  \<open>- s/sp\<close> and of the new \<open>X\<close>. The iteration has converged when the quotient of the
  increment by the new \<open>X\<close> has absolute value below \<open>1e-15\<close>.
\<close>

definition kepler_s :: "dbl \<Rightarrow> dbl \<Rightarrow> dbl \<Rightarrow> dbl \<Rightarrow> dbl \<Rightarrow> dbl \<Rightarrow> dbl \<Rightarrow> dbl" where
  "kepler_s r0 eta zeta h G2 G3 X = dsub (dadd (dadd (dmul r0 X) (dmul eta G2)) (dmul zeta G3)) h"

definition kepler_sp :: "dbl \<Rightarrow> dbl \<Rightarrow> dbl \<Rightarrow> dbl \<Rightarrow> dbl \<Rightarrow> dbl" where
  "kepler_sp r0 eta zeta G1 G2 = dadd (dadd r0 (dmul eta G1)) (dmul zeta G2)"

definition newton_step ::
  "dbl \<Rightarrow> dbl \<Rightarrow> dbl \<Rightarrow> dbl \<Rightarrow> dbl \<Rightarrow> dbl \<Rightarrow> (dbl \<times> dbl) comp" where
  "newton_step r0 eta zeta beta h X =
     bnd (integrator_G 1 beta X) (\<lambda>G1.
     bnd (integrator_G 2 beta X) (\<lambda>G2.
     bnd (integrator_G 3 beta X) (\<lambda>G3.
       let s = kepler_s r0 eta zeta h G2 G3 X;
           sp = kepler_sp r0 eta zeta G1 G2
       in ret (dneg (ddiv s sp), dsub X (ddiv s sp)))))"

definition converged :: "dbl \<times> dbl \<Rightarrow> bool" where
  "converged d = dlt (fabs (ddiv (fst d) (snd d))) (Fin (1 / 10 ^ 15))"

text \<open>
  \<open>newton_iterate k\<close> is the value of \<open>X\<close> after \<open>k\<close> steps of Newton's method, with
  no test in between. \<open>newton_exit k\<close> is \<open>Some Y\<close> when step \<open>k + 1\<close> returns the new
  value \<open>Y\<close> and has converged, and \<open>None\<close> otherwise.
\<close>

fun newton_iterate ::
  "nat \<Rightarrow> dbl \<Rightarrow> dbl \<Rightarrow> dbl \<Rightarrow> dbl \<Rightarrow> dbl \<Rightarrow> dbl \<Rightarrow> dbl comp" where
  "newton_iterate 0 r0 eta zeta beta h X = ret X"
| "newton_iterate (Suc k) r0 eta zeta beta h X =
     bnd (newton_step r0 eta zeta beta h X) (\<lambda>d. newton_iterate k r0 eta zeta beta h (snd d))"

definition newton_exit ::
  "nat \<Rightarrow> dbl \<Rightarrow> dbl \<Rightarrow> dbl \<Rightarrow> dbl \<Rightarrow> dbl \<Rightarrow> dbl \<Rightarrow> dbl option" where
  "newton_exit k r0 eta zeta beta h X0 =
     (case newton_iterate k r0 eta zeta beta h X0 of
        Some (Inr Xk) \<Rightarrow>
          (case newton_step r0 eta zeta beta h Xk of
             Some (Inr d) \<Rightarrow> (if converged d then Some (snd d) else None)
           | _ \<Rightarrow> None)
      | _ \<Rightarrow> None)"

text \<open>The Kepler step applied to the bodies of a list of indices, one after the other.\<close>

fun kepler_steps :: "globals \<Rightarrow> int list \<Rightarrow> globals comp" where
  "kepler_steps s [] = ret s"
| "kepler_steps s (i # is) = bnd (kepler_step s i) (\<lambda>s'. kepler_steps s' is)"

text \<open>A double that is a zero of either sign or a NaN.\<close>

definition zero_or_nan :: "dbl \<Rightarrow> bool" where
  "zero_or_nan d = (is_zero d \<or> d = NaN)"

section \<open>An example: a circular orbit\<close>

text \<open>
  A central body of mass 1 at rest at the origin and a body of mass 0 at distance 1 with
  speed 1 across: a circular orbit, for which \<open>eta = 0\<close>, \<open>beta = 1\<close> and
  \<open>zeta = 0\<close>. With the step \<open>dt = 1/2\<close> Newton's iteration goes from 0 to \<open>1/2\<close> and
  stops there. \<open>ex_planet_after\<close> is the body after the step.
\<close>

definition ex_sun :: particle where
  "ex_sun = \<lparr>p_x = Fin 0, p_y = Fin 0, p_z = Fin 0, p_vx = Fin 0, p_vy = Fin 0, p_vz = Fin 0, p_m = Fin 1\<rparr>"

definition ex_planet :: particle where
  "ex_planet = \<lparr>p_x = Fin 1, p_y = Fin 0, p_z = Fin 0, p_vx = Fin 0, p_vy = Fin 1, p_vz = Fin 0, p_m = Fin 0\<rparr>"

definition ex_state :: globals where
  "ex_state = \<lparr>particles = [ex_sun, ex_planet], N = 2, t = Fin 0, dt = Fin (1 / 2)\<rparr>"

definition ex_planet_after :: particle where
  "ex_planet_after =
     \<lparr>p_x = Fin (171905380251870583 / 195885136871424000),
      p_y = Fin (22351136265295433153 / 46620662575398912000),
      p_z = Fin 0,
      p_vx = Fin (- (3842280578746985970283466555483638199 / 9132294869618490395476453490688000000)),
      p_vy = Fin (1407840276823303611889848102837464126591 / 2173486178969200714123395930783744000000),
      p_vz = Fin 0, p_m = Fin 0\<rparr>"

definition ex_state_after :: globals where
  "ex_state_after = \<lparr>particles = [ex_sun, ex_planet_after], N = 2, t = Fin 0, dt = Fin (1 / 2)\<rparr>"

text \<open>The same two bodies with the step \<open>dt = 0\<close>.\<close>

definition ex_state_zero_dt :: globals where
  "ex_state_zero_dt = \<lparr>particles = [ex_sun, ex_planet], N = 2, t = Fin 0, dt = Fin 0\<rparr>"

section \<open>Sequencing of computations\<close>

lemma bnd_ret [simp]: "bnd (ret v) f = f v"
  by (simp add: bnd_def ret_def)

lemma bnd_Some_Inr [simp]: "bnd (Some (Inr v)) f = f v"
  by (simp add: bnd_def)

lemma bnd_Some_Inl [simp]: "bnd (Some (Inl e)) f = Some (Inl e)"
  by (simp add: bnd_def)

lemma bnd_None [simp]: "bnd None f = None"
  by (simp add: bnd_def)

lemma bnd_assoc: "bnd (bnd m f) g = bnd m (\<lambda>v. bnd (f v) g)"
  by (cases m) (auto simp: bnd_def split: sum.splits)

lemma bnd_eq_Some_Inr:
  "bnd m f = Some (Inr w) \<longleftrightarrow> (\<exists>v. m = Some (Inr v) \<and> f v = Some (Inr w))"
  by (cases m) (auto simp: bnd_def split: sum.splits)

lemma bnd_SomeE:
  assumes "bnd m k = Some r"
  obtains (fault) e where "m = Some (Inl e)" "r = Inl e"
        | (val) v where "m = Some (Inr v)" "k v = Some r"
  using assms by (cases m) (auto simp: bnd_def split: sum.splits)

lemma bnd_cong_val:
  "(\<And>v. m = Some (Inr v) \<Longrightarrow> f v = g v) \<Longrightarrow> bnd m f = bnd m g"
  by (cases m) (auto simp: bnd_def split: sum.splits)

section \<open>Reads of the table and the recursion of \<open>c\<close>\<close>

lemma length_invfactorial: "length invfactorial = 35"
  by (simp add: invfactorial_def)

lemma series_index_small:
  assumes "n \<le> 5" and "j \<le> 12"
  shows "series_index n j = unat n + 2 * j" and "series_index n j \<le> 29"
proof -
  have n: "unat n \<le> 5" using assms(1) by (simp add: word_le_nat_alt)
  have "unat (n + 2 * of_nat j) = unat n + 2 * j"
    using n assms(2) by (simp add: unat_word_ariths unat_of_nat)
  then show "series_index n j = unat n + 2 * j" by (simp add: series_index_def)
  then show "series_index n j \<le> 29" using n assms(2) by simp
qed

lemma c_n_series_loop_no_fault:
  "n \<le> 5 \<Longrightarrow> \<exists>v. c_n_series_loop n z j acc = Inr v"
proof (induction n z j acc rule: c_n_series_loop.induct)
  case (1 n z j c_n)
  show ?case
  proof (cases "j < 13")
    case False
    then show ?thesis by (subst c_n_series_loop.simps) simp
  next
    case True
    then have "series_index n j < length invfactorial"
      using series_index_small(2) [of n j] "1.prems" by (simp add: length_invfactorial)
    then have tab: "table_at (series_index n j) = Inr (invfactorial ! series_index n j)"
      by (simp add: table_at_def)
    show ?thesis
      using True tab "1.IH" [OF True tab refl refl] "1.prems"
      by (subst c_n_series_loop.simps) (simp add: Let_def)
  qed
qed

lemma word_of_unat: "unat (n :: 32 word) = k \<Longrightarrow> n = of_nat k"
  by (drule sym) simp

lemma word_le_5_cases:
  assumes "n \<le> (5 :: 32 word)"
  shows "n = 0 \<or> n = 1 \<or> n = 2 \<or> n = 3 \<or> n = 4 \<or> n = 5"
proof -
  have "unat n \<le> 5" using assms by (simp add: word_le_nat_alt)
  then have "unat n = 0 \<or> unat n = 1 \<or> unat n = 2 \<or> unat n = 3 \<or> unat n = 4 \<or> unat n = 5"
    by arith
  then show ?thesis
    using word_of_unat [of n 0] word_of_unat [of n 1] word_of_unat [of n 2] word_of_unat [of n 3] word_of_unat [of n 4] word_of_unat [of n 5]
    by auto
qed

lemma not_dgt_series: "\<not> dgt z (Fin (1 / 2)) \<Longrightarrow> c n z = lift (c_n_series n z)"
  by (subst c.simps) simp

lemma c_n_series_no_fault: "n \<le> 5 \<Longrightarrow> \<exists>v. c_n_series n z = Inr v"
  by (simp add: c_n_series_def c_n_series_loop_no_fault)

lemma c_quarter_4:
  "dgt z (Fin (1 / 2)) \<Longrightarrow>
   c 4 z = bnd (c 3 (ddiv z (Fin 4))) (\<lambda>c3. bnd (c 1 (ddiv z (Fin 4))) (\<lambda>c1.
             ret (ddiv (dmul c3 (dadd (Fin 1) c1)) (Fin 8))))"
  by (subst c.simps) (simp add: Let_def)

lemma c_quarter_5:
  "dgt z (Fin (1 / 2)) \<Longrightarrow>
   c 5 z = bnd (c 5 (ddiv z (Fin 4))) (\<lambda>c5. bnd (c 4 (ddiv z (Fin 4))) (\<lambda>c4.
           bnd (c 3 (ddiv z (Fin 4))) (\<lambda>c3. bnd (c 2 (ddiv z (Fin 4))) (\<lambda>c2.
             ret (ddiv (dadd (dadd c5 c4) (dmul c3 c2)) (Fin 16))))))"
  by (subst c.simps) (simp add: Let_def)

lemma c_quarter_2:
  "dgt z (Fin (1 / 2)) \<Longrightarrow>
   c 2 z = bnd (c 4 z) (\<lambda>c4. ret (dsub (ddiv (Fin 1) (Fin 2)) (dmul z c4)))"
  by (subst c.simps) (simp add: Let_def c_quarter_4 bnd_assoc)

lemma c_quarter_0:
  "dgt z (Fin (1 / 2)) \<Longrightarrow> c 0 z = bnd (c 2 z) (\<lambda>c2. ret (dsub (Fin 1) (dmul z c2)))"
  by (subst c.simps) (simp add: Let_def c_quarter_2 c_quarter_4 bnd_assoc)

lemma c_quarter_3:
  "dgt z (Fin (1 / 2)) \<Longrightarrow>
   c 3 z = bnd (c 5 z) (\<lambda>c5. ret (dsub (ddiv (Fin 1) (Fin 6)) (dmul z c5)))"
  by (subst c.simps) (simp add: Let_def c_quarter_5 bnd_assoc)

lemma c_quarter_1:
  "dgt z (Fin (1 / 2)) \<Longrightarrow> c 1 z = bnd (c 3 z) (\<lambda>c3. ret (dsub (Fin 1) (dmul z c3)))"
  by (subst c.simps) (simp add: Let_def c_quarter_3 c_quarter_5 bnd_assoc)

lemma c_returns_bounded:
  "r \<le> 4 ^ k / 2 \<Longrightarrow> n \<le> 5 \<Longrightarrow> \<exists>v. c n (Fin r) = Some (Inr v)"
proof (induction k arbitrary: r n)
  case 0
  then have "\<not> dgt (Fin r) (Fin (1 / 2))" by (simp add: dgt_def dlt_def)
  then show ?case
    using c_n_series_no_fault [OF "0.prems"(2), of "Fin r"] by (auto simp: not_dgt_series lift_def)
next
  case (Suc k)
  show ?case
  proof (cases "r \<le> 1 / 2")
    case True
    then have "\<not> dgt (Fin r) (Fin (1 / 2))" by (simp add: dgt_def dlt_def)
    then show ?thesis
      using c_n_series_no_fault [OF Suc.prems(2), of "Fin r"] by (auto simp: not_dgt_series lift_def)
  next
    case False
    then have gt: "dgt (Fin r) (Fin (1 / 2))" by (simp add: dgt_def dlt_def)
    have q: "ddiv (Fin r) (Fin 4) = Fin (r / 4)"
      using False by (simp add: ddiv_def fin_of_def)
    have "r / 4 \<le> 4 ^ k / 2" using Suc.prems(1) by simp
    then have ih: "\<And>n'. n' \<le> 5 \<Longrightarrow> \<exists>v. c n' (Fin (r / 4)) = Some (Inr v)"
      using Suc.IH by blast
    obtain v1 v2 v3 v4 v5 where v:
      "c 1 (Fin (r / 4)) = Some (Inr v1)" "c 2 (Fin (r / 4)) = Some (Inr v2)"
      "c 3 (Fin (r / 4)) = Some (Inr v3)" "c 4 (Fin (r / 4)) = Some (Inr v4)"
      "c 5 (Fin (r / 4)) = Some (Inr v5)"
      using ih [of 1] ih [of 2] ih [of 3] ih [of 4] ih [of 5] by auto
    have c4: "\<exists>v. c 4 (Fin r) = Some (Inr v)"
      by (simp add: c_quarter_4 [OF gt] q v ret_def)
    have c5: "\<exists>v. c 5 (Fin r) = Some (Inr v)"
      by (simp add: c_quarter_5 [OF gt] q v ret_def)
    have c2: "\<exists>v. c 2 (Fin r) = Some (Inr v)"
      using c4 by (auto simp: c_quarter_2 [OF gt] ret_def)
    have c3: "\<exists>v. c 3 (Fin r) = Some (Inr v)"
      using c5 by (auto simp: c_quarter_3 [OF gt] ret_def)
    have c0: "\<exists>v. c 0 (Fin r) = Some (Inr v)"
      using c2 by (auto simp: c_quarter_0 [OF gt] ret_def)
    have c1: "\<exists>v. c 1 (Fin r) = Some (Inr v)"
      using c3 by (auto simp: c_quarter_1 [OF gt] ret_def)
    show ?thesis
      using word_le_5_cases [OF Suc.prems(2)] c0 c1 c2 c3 c4 c5 by auto
  qed
qed

lemma c_no_fault:
  assumes "c n z = Some r"
  shows "n \<le> 5 \<longrightarrow> (\<exists>v. r = Inr v)"
proof (rule c.raw_induct [where P = "\<lambda>n z r. n \<le> 5 \<longrightarrow> (\<exists>v. r = Inr v)", OF _ assms], goal_cases)
  case (1 f n z r)
  show ?case
  proof
    assume n: "n \<le> 5"
    have ih: "\<And>n' z' y. f n' z' = Some y \<Longrightarrow> n' \<le> 5 \<Longrightarrow> \<exists>v. y = Inr v"
      using 1(1) by blast
    have rec: "\<And>e. f 1 (ddiv z (Fin 4)) \<noteq> Some (Inl e)" "\<And>e. f 2 (ddiv z (Fin 4)) \<noteq> Some (Inl e)"
      "\<And>e. f 3 (ddiv z (Fin 4)) \<noteq> Some (Inl e)" "\<And>e. f 4 (ddiv z (Fin 4)) \<noteq> Some (Inl e)"
      "\<And>e. f 5 (ddiv z (Fin 4)) \<noteq> Some (Inl e)"
    proof -
      have g: "\<And>n' e. n' \<le> 5 \<Longrightarrow> f n' (ddiv z (Fin 4)) \<noteq> Some (Inl e)"
        using ih by fastforce
      show "\<And>e. f 1 (ddiv z (Fin 4)) \<noteq> Some (Inl e)" "\<And>e. f 2 (ddiv z (Fin 4)) \<noteq> Some (Inl e)"
        "\<And>e. f 3 (ddiv z (Fin 4)) \<noteq> Some (Inl e)" "\<And>e. f 4 (ddiv z (Fin 4)) \<noteq> Some (Inl e)"
        "\<And>e. f 5 (ddiv z (Fin 4)) \<noteq> Some (Inl e)"
        by (simp_all add: g)
    qed
    show "\<exists>v. r = Inr v"
    proof (cases "dgt z (Fin (1 / 2))")
      case False
      then show ?thesis
        using 1(2) c_n_series_no_fault [OF n, of z] by (auto simp: lift_def)
    next
      case True
      from word_le_5_cases [OF n] show ?thesis
      proof (elim disjE)
        assume "n = 0"
        then show ?thesis using 1(2) True
          by (auto simp: Let_def ret_def rec elim!: bnd_SomeE)
      next
        assume "n = 1"
        then show ?thesis using 1(2) True
          by (auto simp: Let_def ret_def rec elim!: bnd_SomeE)
      next
        assume "n = 2"
        then show ?thesis using 1(2) True
          by (auto simp: Let_def ret_def rec elim!: bnd_SomeE)
      next
        assume "n = 3"
        then show ?thesis using 1(2) True
          by (auto simp: Let_def ret_def rec elim!: bnd_SomeE)
      next
        assume "n = 4"
        then show ?thesis using 1(2) True
          by (auto simp: Let_def ret_def rec elim!: bnd_SomeE)
      next
        assume "n = 5"
        then show ?thesis using 1(2) True
          by (auto simp: Let_def ret_def rec elim!: bnd_SomeE)
      qed
    qed
  qed
qed

section \<open>Evaluation of the arithmetic\<close>

lemma dadd_eval:
  "dadd (Fin a) (Fin b) = Fin (a + b)"
  "dadd (Fin a) NZero = Fin a"
  "dadd NZero (Fin b) = Fin b"
  "dadd NZero NZero = NZero"
  "dadd NaN y = NaN"
  "dadd x NaN = NaN"
  by (simp_all add: dadd_def)

lemma dmul_eval:
  "dmul (Fin a) (Fin b) = fin_of ((a < 0) \<noteq> (b < 0)) (a * b)"
  "dmul (Fin a) NZero = zero_of (\<not> a < 0)"
  "dmul NZero (Fin b) = zero_of (\<not> b < 0)"
  "dmul NZero NZero = Fin 0"
  "dmul NaN y = NaN"
  "dmul x NaN = NaN"
  by (auto simp: dmul_def fin_of_def zero_of_def)

lemma ddiv_eval:
  "ddiv (Fin a) (Fin b) =
     (if b = 0 then (if a = 0 then NaN else inf_of (a < 0))
      else fin_of ((a < 0) \<noteq> (b < 0)) (a / b))"
  "ddiv (Fin a) NZero = (if a = 0 then NaN else inf_of (\<not> a < 0))"
  "ddiv NZero (Fin b) = (if b = 0 then NaN else zero_of (\<not> b < 0))"
  "ddiv NZero NZero = NaN"
  "ddiv NaN y = NaN"
  "ddiv x NaN = NaN"
  by (auto simp: ddiv_def fin_of_def zero_of_def inf_of_def)

lemma dlt_eval:
  "dlt (Fin a) (Fin b) = (a < b)"
  "dlt NZero (Fin b) = (0 < b)"
  "dlt (Fin a) NZero = (a < 0)"
  "dlt PInf y = False"
  "dlt NaN y = False"
  "dlt x NaN = False"
  by (auto simp: dlt_def)

lemma dpow_eval:
  "dpow x 0 = Fin 1"
  "dpow (Fin r) n = Fin (r ^ n)"
  "dpow NZero n = (if n = 0 then Fin 1 else if odd n then NZero else Fin 0)"
  "dpow NaN n = (if n = 0 then Fin 1 else NaN)"
  by (simp_all add: dpow_def)

lemmas dbl_eval = dadd_eval dsub_def dmul_eval ddiv_eval dlt_eval dgt_def dpow_eval fin_of_def
  zero_of_def inf_of_def power_divide

lemmas series_eval = c_n_series_def c_n_series_loop.simps table_at_def series_index_def Let_def

section \<open>The structure of the Kepler step\<close>

lemma write_particle_fields [simp]:
  "N (write_particle s i u) = N s"
  "t (write_particle s i u) = t s"
  "dt (write_particle s i u) = dt s"
  "particles (write_particle s i u) = (particles s)[nat i := u (particles s ! nat i)]"
  by (simp_all add: write_particle_def)

lemma gauss_update_fields [simp]:
  "N (gauss_update s i f g fd gd) = N s"
  "t (gauss_update s i f g fd gd) = t s"
  "dt (gauss_update s i f g fd gd) = dt s"
  "length (particles (gauss_update s i f g fd gd)) = length (particles s)"
  by (simp_all add: gauss_update_def Let_def)

lemma gauss_update_other:
  "j \<noteq> nat i \<Longrightarrow> particles (gauss_update s i f g fd gd) ! j = particles s ! j"
  by (simp add: gauss_update_def Let_def)

lemma gauss_update_self:
  assumes "nat i < length (particles s)"
  shows "particles (gauss_update s i f g fd gd) ! nat i =
    (let p = particles s ! nat i;
         x' = dadd (dmul f (p_x p)) (dmul g (p_vx p));
         y' = dadd (dmul f (p_y p)) (dmul g (p_vy p));
         z' = dadd (dmul f (p_z p)) (dmul g (p_vz p))
     in p\<lparr>p_x := x', p_y := y', p_z := z',
          p_vx := dadd (dmul fd x') (dmul gd (p_vx p)),
          p_vy := dadd (dmul fd y') (dmul gd (p_vy p)),
          p_vz := dadd (dmul fd z') (dmul gd (p_vz p))\<rparr>)"
  using assms by (simp add: gauss_update_def Let_def)

lemma kepler_step_unfold:
  "kepler_step s i =
     bnd (lift (particle_at s 0)) (\<lambda>p0.
     bnd (lift (particle_at s i)) (\<lambda>p1.
     bnd (newton_loop (kepler_r0 p1) (kepler_eta p1) (kepler_zeta (p_m p0) p1)
            (kepler_beta (p_m p0) p1) (dt s) (Fin 0)) (\<lambda>X.
     bnd (integrator_G 1 (kepler_beta (p_m p0) p1) X) (\<lambda>G1.
     bnd (integrator_G 2 (kepler_beta (p_m p0) p1) X) (\<lambda>G2.
     bnd (integrator_G 3 (kepler_beta (p_m p0) p1) X) (\<lambda>G3.
       ret (gauss_update s i
             (gauss_f (p_m p0) (kepler_r0 p1) G2)
             (gauss_g (dt s) (p_m p0) G3)
             (gauss_fd (p_m p0) (kepler_r0 p1)
                (gauss_r (kepler_r0 p1) (kepler_eta p1) (kepler_zeta (p_m p0) p1) G1 G2) G1)
             (gauss_gd (p_m p0)
                (gauss_r (kepler_r0 p1) (kepler_eta p1) (kepler_zeta (p_m p0) p1) G1 G2) G2))))))))"
  by (simp add: kepler_step_def Let_def kepler_r0_def kepler_eta_def kepler_zeta_def kepler_beta_def
      kepler_v2_def gauss_f_def gauss_g_def gauss_fd_def gauss_gd_def gauss_r_def)

lemma lift_particle_at_Some:
  "lift (particle_at s i) = Some (Inr p) \<longleftrightarrow>
     0 \<le> i \<and> i < int (length (particles s)) \<and> p = particles s ! nat i"
  by (auto simp: lift_def particle_at_def)

lemma kepler_step_SomeD:
  assumes "kepler_step s i = Some (Inr s')"
  defines "p0 \<equiv> particles s ! 0" and "p1 \<equiv> particles s ! nat i"
  shows "0 \<le> i \<and> i < int (length (particles s)) \<and>
    (\<exists>X G1 G2 G3.
       newton_loop (kepler_r0 p1) (kepler_eta p1) (kepler_zeta (p_m p0) p1)
            (kepler_beta (p_m p0) p1) (dt s) (Fin 0) = Some (Inr X) \<and>
       integrator_G 1 (kepler_beta (p_m p0) p1) X = Some (Inr G1) \<and>
       integrator_G 2 (kepler_beta (p_m p0) p1) X = Some (Inr G2) \<and>
       integrator_G 3 (kepler_beta (p_m p0) p1) X = Some (Inr G3) \<and>
       s' = gauss_update s i
             (gauss_f (p_m p0) (kepler_r0 p1) G2)
             (gauss_g (dt s) (p_m p0) G3)
             (gauss_fd (p_m p0) (kepler_r0 p1)
                (gauss_r (kepler_r0 p1) (kepler_eta p1) (kepler_zeta (p_m p0) p1) G1 G2) G1)
             (gauss_gd (p_m p0)
                (gauss_r (kepler_r0 p1) (kepler_eta p1) (kepler_zeta (p_m p0) p1) G1 G2) G2))"
  using assms(1) unfolding kepler_step_unfold p0_def p1_def
  by (auto simp: bnd_eq_Some_Inr lift_particle_at_Some ret_def)

lemma kepler_step_returns:
  assumes "0 \<le> i" and "i < int (length (particles s))"
    and "newton_loop (kepler_r0 (particles s ! nat i)) (kepler_eta (particles s ! nat i))
           (kepler_zeta (p_m (particles s ! 0)) (particles s ! nat i))
           (kepler_beta (p_m (particles s ! 0)) (particles s ! nat i)) (dt s) (Fin 0) = Some (Inr X)"
    and "integrator_G 1 (kepler_beta (p_m (particles s ! 0)) (particles s ! nat i)) X = Some (Inr G1)"
    and "integrator_G 2 (kepler_beta (p_m (particles s ! 0)) (particles s ! nat i)) X = Some (Inr G2)"
    and "integrator_G 3 (kepler_beta (p_m (particles s ! 0)) (particles s ! nat i)) X = Some (Inr G3)"
  shows "kepler_step s i = Some (Inr (gauss_update s i
           (gauss_f (p_m (particles s ! 0)) (kepler_r0 (particles s ! nat i)) G2)
           (gauss_g (dt s) (p_m (particles s ! 0)) G3)
           (gauss_fd (p_m (particles s ! 0)) (kepler_r0 (particles s ! nat i))
              (gauss_r (kepler_r0 (particles s ! nat i)) (kepler_eta (particles s ! nat i))
                 (kepler_zeta (p_m (particles s ! 0)) (particles s ! nat i)) G1 G2) G1)
           (gauss_gd (p_m (particles s ! 0))
              (gauss_r (kepler_r0 (particles s ! nat i)) (kepler_eta (particles s ! nat i))
                 (kepler_zeta (p_m (particles s ! 0)) (particles s ! nat i)) G1 G2) G2)))"
proof -
  have p: "lift (particle_at s 0) = Some (Inr (particles s ! 0))"
    "lift (particle_at s i) = Some (Inr (particles s ! nat i))"
    using assms(1,2) by (auto simp: lift_def particle_at_def)
  show ?thesis
    unfolding kepler_step_unfold by (simp add: p assms(3-6) ret_def)
qed

lemma kepler_step_Some_iff:
  assumes "0 \<le> i" and "i < int (length (particles s))"
  shows "kepler_step s i = Some (Inr s') \<longleftrightarrow>
    (\<exists>X G1 G2 G3.
       newton_loop (kepler_r0 (particles s ! nat i)) (kepler_eta (particles s ! nat i))
         (kepler_zeta (p_m (particles s ! 0)) (particles s ! nat i))
         (kepler_beta (p_m (particles s ! 0)) (particles s ! nat i)) (dt s) (Fin 0) = Some (Inr X) \<and>
       integrator_G 1 (kepler_beta (p_m (particles s ! 0)) (particles s ! nat i)) X = Some (Inr G1) \<and>
       integrator_G 2 (kepler_beta (p_m (particles s ! 0)) (particles s ! nat i)) X = Some (Inr G2) \<and>
       integrator_G 3 (kepler_beta (p_m (particles s ! 0)) (particles s ! nat i)) X = Some (Inr G3) \<and>
       s' = gauss_update s i
           (gauss_f (p_m (particles s ! 0)) (kepler_r0 (particles s ! nat i)) G2)
           (gauss_g (dt s) (p_m (particles s ! 0)) G3)
           (gauss_fd (p_m (particles s ! 0)) (kepler_r0 (particles s ! nat i))
              (gauss_r (kepler_r0 (particles s ! nat i)) (kepler_eta (particles s ! nat i))
                 (kepler_zeta (p_m (particles s ! 0)) (particles s ! nat i)) G1 G2) G1)
           (gauss_gd (p_m (particles s ! 0))
              (gauss_r (kepler_r0 (particles s ! nat i)) (kepler_eta (particles s ! nat i))
                 (kepler_zeta (p_m (particles s ! 0)) (particles s ! nat i)) G1 G2) G2))"
proof
  assume "kepler_step s i = Some (Inr s')"
  from kepler_step_SomeD [OF this] show "\<exists>X G1 G2 G3.
       newton_loop (kepler_r0 (particles s ! nat i)) (kepler_eta (particles s ! nat i))
         (kepler_zeta (p_m (particles s ! 0)) (particles s ! nat i))
         (kepler_beta (p_m (particles s ! 0)) (particles s ! nat i)) (dt s) (Fin 0) = Some (Inr X) \<and>
       integrator_G 1 (kepler_beta (p_m (particles s ! 0)) (particles s ! nat i)) X = Some (Inr G1) \<and>
       integrator_G 2 (kepler_beta (p_m (particles s ! 0)) (particles s ! nat i)) X = Some (Inr G2) \<and>
       integrator_G 3 (kepler_beta (p_m (particles s ! 0)) (particles s ! nat i)) X = Some (Inr G3) \<and>
       s' = gauss_update s i
           (gauss_f (p_m (particles s ! 0)) (kepler_r0 (particles s ! nat i)) G2)
           (gauss_g (dt s) (p_m (particles s ! 0)) G3)
           (gauss_fd (p_m (particles s ! 0)) (kepler_r0 (particles s ! nat i))
              (gauss_r (kepler_r0 (particles s ! nat i)) (kepler_eta (particles s ! nat i))
                 (kepler_zeta (p_m (particles s ! 0)) (particles s ! nat i)) G1 G2) G1)
           (gauss_gd (p_m (particles s ! 0))
              (gauss_r (kepler_r0 (particles s ! nat i)) (kepler_eta (particles s ! nat i))
                 (kepler_zeta (p_m (particles s ! 0)) (particles s ! nat i)) G1 G2) G2)"
    by (rule conjunct2 [OF conjunct2])
next
  assume "\<exists>X G1 G2 G3.
       newton_loop (kepler_r0 (particles s ! nat i)) (kepler_eta (particles s ! nat i))
         (kepler_zeta (p_m (particles s ! 0)) (particles s ! nat i))
         (kepler_beta (p_m (particles s ! 0)) (particles s ! nat i)) (dt s) (Fin 0) = Some (Inr X) \<and>
       integrator_G 1 (kepler_beta (p_m (particles s ! 0)) (particles s ! nat i)) X = Some (Inr G1) \<and>
       integrator_G 2 (kepler_beta (p_m (particles s ! 0)) (particles s ! nat i)) X = Some (Inr G2) \<and>
       integrator_G 3 (kepler_beta (p_m (particles s ! 0)) (particles s ! nat i)) X = Some (Inr G3) \<and>
       s' = gauss_update s i
           (gauss_f (p_m (particles s ! 0)) (kepler_r0 (particles s ! nat i)) G2)
           (gauss_g (dt s) (p_m (particles s ! 0)) G3)
           (gauss_fd (p_m (particles s ! 0)) (kepler_r0 (particles s ! nat i))
              (gauss_r (kepler_r0 (particles s ! nat i)) (kepler_eta (particles s ! nat i))
                 (kepler_zeta (p_m (particles s ! 0)) (particles s ! nat i)) G1 G2) G1)
           (gauss_gd (p_m (particles s ! 0))
              (gauss_r (kepler_r0 (particles s ! nat i)) (kepler_eta (particles s ! nat i))
                 (kepler_zeta (p_m (particles s ! 0)) (particles s ! nat i)) G1 G2) G2)"
  then show "kepler_step s i = Some (Inr s')"
    using kepler_step_returns [OF assms] by blast
qed

section \<open>The example evaluated\<close>

lemma ex_series_zero:
  "c_n_series 1 (Fin 0) = Inr (Fin 1)"
  "c_n_series 2 (Fin 0) = Inr (Fin (1 / 2))"
  "c_n_series 3 (Fin 0) = Inr (Fin (1 / 6))"
  by (simp_all add: series_eval length_invfactorial invfactorial_def dbl_eval split del: if_split)

lemma ex_series_quarter:
  "c_n_series 1 (Fin (1 / 4)) = Inr (Fin (22351136265295433153 / 23310331287699456000))"
  "c_n_series 2 (Fin (1 / 4)) = Inr (Fin (23979756619553417 / 48971284217856000))"
  "c_n_series 3 (Fin (1 / 4)) = Inr (Fin (959195022404022847 / 5827582821924864000))"
  by (simp_all add: series_eval length_invfactorial invfactorial_def dbl_eval split del: if_split)

lemma ex_G_zero:
  "integrator_G 1 (Fin 1) (Fin 0) = Some (Inr (Fin 0))"
  "integrator_G 2 (Fin 1) (Fin 0) = Some (Inr (Fin 0))"
  "integrator_G 3 (Fin 1) (Fin 0) = Some (Inr (Fin 0))"
  by (simp_all add: integrator_G_def not_dgt_series ex_series_zero lift_def ret_def dbl_eval)

lemma ex_G_half:
  "integrator_G 1 (Fin 1) (Fin (1 / 2)) = Some (Inr (Fin (22351136265295433153 / 46620662575398912000)))"
  "integrator_G 2 (Fin 1) (Fin (1 / 2)) = Some (Inr (Fin (23979756619553417 / 195885136871424000)))"
  "integrator_G 3 (Fin 1) (Fin (1 / 2)) = Some (Inr (Fin (959195022404022847 / 46620662575398912000)))"
  by (simp_all add: integrator_G_def not_dgt_series ex_series_quarter lift_def ret_def dbl_eval)

lemma ex_newton:
  "newton_loop (Fin 1) (Fin 0) (Fin 0) (Fin 1) (Fin (1 / 2)) (Fin 0) = Some (Inr (Fin (1 / 2)))"
  apply (subst newton_loop.simps)
  apply (simp add: ex_G_zero Let_def dbl_eval split del: if_split)
  apply (subst newton_loop.simps)
  apply (simp add: ex_G_half Let_def dbl_eval ret_def split del: if_split)
  done

lemma ex_invariants:
  "kepler_r0 ex_planet = Fin 1"
  "kepler_eta ex_planet = Fin 0"
  "kepler_beta (Fin 1) ex_planet = Fin 1"
  "kepler_zeta (Fin 1) ex_planet = Fin 0"
  by (simp_all add: ex_planet_def kepler_r0_def kepler_eta_def kepler_beta_def kepler_zeta_def
      kepler_v2_def dbl_eval)

lemma ex_gauss_coefficients:
  "gauss_r (Fin 1) (Fin 0) (Fin 0) (Fin (22351136265295433153 / 46620662575398912000))
     (Fin (23979756619553417 / 195885136871424000)) = Fin 1"
  "gauss_f (Fin 1) (Fin 1) (Fin (23979756619553417 / 195885136871424000))
     = Fin (171905380251870583 / 195885136871424000)"
  "gauss_g (Fin (1 / 2)) (Fin 1) (Fin (959195022404022847 / 46620662575398912000))
     = Fin (22351136265295433153 / 46620662575398912000)"
  "gauss_fd (Fin 1) (Fin 1) (Fin 1) (Fin (22351136265295433153 / 46620662575398912000))
     = Fin (- (22351136265295433153 / 46620662575398912000))"
  "gauss_gd (Fin 1) (Fin 1) (Fin (23979756619553417 / 195885136871424000))
     = Fin (171905380251870583 / 195885136871424000)"
  by (simp_all add: gauss_r_def gauss_f_def gauss_g_def gauss_fd_def gauss_gd_def dbl_eval)

lemma ex_gauss_update:
  "gauss_update ex_state 1
     (Fin (171905380251870583 / 195885136871424000))
     (Fin (22351136265295433153 / 46620662575398912000))
     (Fin (- (22351136265295433153 / 46620662575398912000)))
     (Fin (171905380251870583 / 195885136871424000)) = ex_state_after"
  by (simp add: gauss_update_def write_particle_def Let_def ex_state_def ex_state_after_def
      ex_planet_def ex_planet_after_def dbl_eval)

lemma ex_state_fields:
  "particles ex_state ! 0 = ex_sun" "particles ex_state ! nat 1 = ex_planet"
  "dt ex_state = Fin (1 / 2)" "p_m ex_sun = Fin 1"
  "(0 :: int) \<le> 1" "(1 :: int) < int (length (particles ex_state))"
  "particles ex_state_after ! nat 1 = ex_planet_after"
  by (simp_all add: ex_state_def ex_sun_def ex_state_after_def)

lemma ex_kepler_step: "kepler_step ex_state 1 = Some (Inr ex_state_after)"
proof -
  have p: "lift (particle_at ex_state 0) = Some (Inr ex_sun)"
    "lift (particle_at ex_state 1) = Some (Inr ex_planet)"
    by (simp_all add: lift_def particle_at_def ex_state_def)
  show ?thesis
    unfolding kepler_step_unfold
    by (simp add: p ex_state_fields ex_invariants ex_newton ex_G_half ex_gauss_coefficients
        ex_gauss_update ret_def)
qed

section \<open>The loop of the driver\<close>

lemma kepler_step_frame:
  assumes "kepler_step s i = Some (Inr s')"
  shows "N s' = N s" "t s' = t s" "dt s' = dt s"
    "length (particles s') = length (particles s)"
    "j \<noteq> nat i \<Longrightarrow> particles s' ! j = particles s ! j"
  using kepler_step_SomeD [OF assms] by (auto simp: gauss_update_other)

lemma part2_loop_steps: "part2_loop s i = kepler_steps s [i..N s - 1]"
proof (induction "nat (N s - i)" arbitrary: s i)
  case 0
  then have "\<not> i < N s" by simp
  then show ?case by (subst part2_loop.simps) simp
next
  case (Suc k)
  then have lt: "i < N s" by simp
  have "bnd (kepler_step s i) (\<lambda>s'. part2_loop s' (i + 1)) =
        bnd (kepler_step s i) (\<lambda>s'. kepler_steps s' [i + 1..N s - 1])"
  proof (rule bnd_cong_val)
    fix s' assume st: "kepler_step s i = Some (Inr s')"
    have n: "N s' = N s" by (rule kepler_step_frame(1) [OF st])
    have "k = nat (N s' - (i + 1))" using Suc.hyps(2) n by simp
    from Suc.hyps(1) [OF this] show "part2_loop s' (i + 1) = kepler_steps s' [i + 1..N s - 1]"
      by (simp add: n)
  qed
  moreover have "[i..N s - 1] = i # [i + 1..N s - 1]"
    using lt by (simp add: upto_rec1)
  ultimately show ?case
    using lt by (subst part2_loop.simps) simp
qed

lemma kepler_steps_frame:
  "kepler_steps s is = Some (Inr s') \<Longrightarrow> \<forall>i \<in> set is. 1 \<le> i \<Longrightarrow>
     N s' = N s \<and> t s' = t s \<and> dt s' = dt s \<and> particles s' ! 0 = particles s ! 0"
proof (induction "is" arbitrary: s)
  case Nil
  then show ?case by (simp add: ret_def)
next
  case (Cons i "is")
  from Cons.prems(1) obtain s1 where s1: "kepler_step s i = Some (Inr s1)"
    and rest: "kepler_steps s1 is = Some (Inr s')"
    by (auto simp: bnd_eq_Some_Inr)
  have "0 \<noteq> nat i" using Cons.prems(2) by simp
  then have "particles s1 ! 0 = particles s ! 0"
    by (rule kepler_step_frame(5) [OF s1])
  then show ?case
    using Cons.IH [OF rest] Cons.prems(2) kepler_step_frame(1-3) [OF s1] by simp
qed

lemma ex_part2: "integrator_part2 ex_state = Some (Inr (ex_state_after\<lparr>t := Fin (1 / 2)\<rparr>))"
proof -
  have "N ex_state = 2" by (simp add: ex_state_def)
  then have "[1..N ex_state - 1] = [1]" by (simp add: upto_rec1)
  then show ?thesis
    by (simp add: integrator_part2_def part2_loop_steps ex_kepler_step ret_def ex_state_after_def dbl_eval)
qed

section \<open>The Newton loop\<close>

lemma dneg_zero_of: "dneg (zero_of b) = zero_of (\<not> b)"
  by (simp add: zero_of_def)

lemma dneg_inf_of: "dneg (inf_of b) = inf_of (\<not> b)"
  by (simp add: inf_of_def)

lemma dneg_fin_of: "dneg (fin_of b r) = fin_of (\<not> b) (- r)"
  by (simp add: fin_of_def dneg_zero_of)

lemma signbit_dneg: "a \<noteq> NaN \<Longrightarrow> signbit (dneg a) = (\<not> signbit a)"
  by (cases a) auto

lemma valof_dneg: "valof (dneg a) = - valof a"
  by (cases a) auto

lemma dneg_props [simp]:
  "is_inf (dneg a) = is_inf a" "is_zero (dneg a) = is_zero a" "(dneg a = NaN) = (a = NaN)"
  by (cases a; simp)+

lemma ddiv_dneg: "ddiv (dneg a) b = dneg (ddiv a b)"
  by (cases "a = NaN \<or> b = NaN")
     (auto simp: ddiv_def dneg_zero_of dneg_inf_of dneg_fin_of signbit_dneg valof_dneg)

lemma fabs_dneg: "fabs (dneg a) = fabs a"
  by (cases a) auto

lemma newton_body_step:
  "bnd (integrator_G 1 beta X) (\<lambda>G1.
     bnd (integrator_G 2 beta X) (\<lambda>G2.
     bnd (integrator_G 3 beta X) (\<lambda>G3.
       let s = dsub (dadd (dadd (dmul r0 X) (dmul eta G2)) (dmul zeta G3)) h;
           sp = dadd (dadd r0 (dmul eta G1)) (dmul zeta G2);
           dX = ddiv (dneg s) sp;
           X' = dadd X dX
       in if dlt (fabs (ddiv dX X')) (Fin (1 / 10 ^ 15)) then ret X'
          else f r0 eta zeta beta h X'))) =
   bnd (newton_step r0 eta zeta beta h X) (\<lambda>d.
       if converged d then ret (snd d) else f r0 eta zeta beta h (snd d))"
  by (simp add: newton_step_def bnd_assoc Let_def kepler_s_def kepler_sp_def converged_def
        ddiv_dneg dsub_def fabs_dneg cong: if_cong)

lemma newton_loop_step:
  "newton_loop r0 eta zeta beta h X =
     bnd (newton_step r0 eta zeta beta h X) (\<lambda>d.
       if converged d then ret (snd d) else newton_loop r0 eta zeta beta h (snd d))"
  by (subst newton_loop.simps) (rule newton_body_step)

lemma newton_exit_0:
  "newton_exit 0 r0 eta zeta beta h X0 =
     (case newton_step r0 eta zeta beta h X0 of
        Some (Inr d) \<Rightarrow> (if converged d then Some (snd d) else None)
      | _ \<Rightarrow> None)"
  by (simp add: newton_exit_def ret_def)

lemma newton_exit_Suc:
  "newton_step r0 eta zeta beta h X0 = Some (Inr d) \<Longrightarrow>
   newton_exit (Suc k) r0 eta zeta beta h X0 = newton_exit k r0 eta zeta beta h (snd d)"
  by (simp add: newton_exit_def)

lemma newton_exit_Suc_SomeD:
  assumes "newton_exit (Suc k) r0 eta zeta beta h X0 = Some Y"
  shows "\<exists>d. newton_step r0 eta zeta beta h X0 = Some (Inr d)"
proof (cases "newton_step r0 eta zeta beta h X0")
  case None
  with assms show ?thesis by (simp add: newton_exit_def)
next
  case (Some r)
  with assms show ?thesis by (cases r) (simp_all add: newton_exit_def)
qed

lemma newton_loop_exit:
  "newton_exit k r0 eta zeta beta h X0 = Some Y \<Longrightarrow>
   (\<forall>j<k. newton_exit j r0 eta zeta beta h X0 = None) \<Longrightarrow>
   newton_loop r0 eta zeta beta h X0 = Some (Inr Y)"
proof (induction k arbitrary: X0)
  case 0
  then show ?case
    by (subst newton_loop_step)
       (auto simp: newton_exit_0 ret_def split: option.splits sum.splits if_splits)
next
  case (Suc k)
  from newton_exit_Suc_SomeD [OF Suc.prems(1)]
  obtain d where d: "newton_step r0 eta zeta beta h X0 = Some (Inr d)" by blast
  have "newton_exit 0 r0 eta zeta beta h X0 = None" using Suc.prems(2) by blast
  then have nc: "\<not> converged d" using d by (simp add: newton_exit_0 split: if_splits)
  have e: "newton_exit k r0 eta zeta beta h (snd d) = Some Y"
    using Suc.prems(1) by (simp add: newton_exit_Suc [OF d])
  have "\<forall>j<k. newton_exit j r0 eta zeta beta h (snd d) = None"
  proof (intro allI impI)
    fix j assume "j < k"
    then have "newton_exit (Suc j) r0 eta zeta beta h X0 = None" using Suc.prems(2) by simp
    then show "newton_exit j r0 eta zeta beta h (snd d) = None"
      by (simp add: newton_exit_Suc [OF d])
  qed
  from Suc.IH [OF e this] show ?case
    by (subst newton_loop_step) (simp add: d nc)
qed

lemma newton_loop_returns:
  assumes "newton_loop r0 eta zeta beta h X0 = Some r"
  shows "\<forall>Y. r = Inr Y \<longrightarrow>
    (\<exists>k. newton_exit k r0 eta zeta beta h X0 = Some Y \<and>
         (\<forall>j<k. newton_exit j r0 eta zeta beta h X0 = None))"
proof (rule newton_loop.raw_induct [where P = "\<lambda>r0 eta zeta beta h X0 r. \<forall>Y. r = Inr Y \<longrightarrow>
    (\<exists>k. newton_exit k r0 eta zeta beta h X0 = Some Y \<and>
         (\<forall>j<k. newton_exit j r0 eta zeta beta h X0 = None))", OF _ assms], goal_cases)
  case (1 f r0 eta zeta beta h X0 r)
  show ?case
  proof (intro allI impI)
    fix Y assume "r = Inr Y"
    with 1(2) obtain d where d: "newton_step r0 eta zeta beta h X0 = Some (Inr d)"
      and rest: "(if converged d then ret (snd d) else f r0 eta zeta beta h (snd d)) = Some (Inr Y)"
      unfolding newton_body_step by (auto simp: bnd_eq_Some_Inr)
    show "\<exists>k. newton_exit k r0 eta zeta beta h X0 = Some Y \<and>
         (\<forall>j<k. newton_exit j r0 eta zeta beta h X0 = None)"
    proof (cases "converged d")
      case True
      with rest d have "newton_exit 0 r0 eta zeta beta h X0 = Some Y"
        by (simp add: newton_exit_0 ret_def)
      then show ?thesis by (intro exI [of _ 0]) simp
    next
      case False
      with rest have "f r0 eta zeta beta h (snd d) = Some (Inr Y)" by simp
      from 1(1) [OF this] obtain k where k: "newton_exit k r0 eta zeta beta h (snd d) = Some Y"
        and nk: "\<forall>j<k. newton_exit j r0 eta zeta beta h (snd d) = None"
        by blast
      have "\<forall>j<Suc k. newton_exit j r0 eta zeta beta h X0 = None"
      proof (intro allI impI)
        fix j assume j: "j < Suc k"
        show "newton_exit j r0 eta zeta beta h X0 = None"
        proof (cases j)
          case 0
          then show ?thesis using d False by (simp add: newton_exit_0)
        next
          case (Suc j')
          then show ?thesis using j nk by (simp add: newton_exit_Suc [OF d])
        qed
      qed
      then show ?thesis
        using k by (intro exI [of _ "Suc k"]) (simp add: newton_exit_Suc [OF d])
    qed
  qed
qed

lemma newton_loop_Some_iff:
  "newton_loop r0 eta zeta beta h X0 = Some (Inr Y) \<longleftrightarrow>
     (\<exists>k. newton_exit k r0 eta zeta beta h X0 = Some Y \<and>
          (\<forall>j<k. newton_exit j r0 eta zeta beta h X0 = None))"
  using newton_loop_returns [of r0 eta zeta beta h X0 "Inr Y"] newton_loop_exit by blast

section \<open>A step of length zero\<close>

lemma zero_or_nan_cases: "zero_or_nan d \<longleftrightarrow> d = Fin 0 \<or> d = NZero \<or> d = NaN"
  by (cases d) (auto simp: zero_or_nan_def)

lemma zn_dmul_left: "zero_or_nan a \<Longrightarrow> zero_or_nan (dmul a b)"
  by (cases b) (auto simp: zero_or_nan_cases dmul_def fin_of_def zero_of_def)

lemma zn_dmul_right: "zero_or_nan b \<Longrightarrow> zero_or_nan (dmul a b)"
  by (cases a) (auto simp: zero_or_nan_cases dmul_def fin_of_def zero_of_def)

lemma zn_dadd: "zero_or_nan a \<Longrightarrow> zero_or_nan b \<Longrightarrow> zero_or_nan (dadd a b)"
  by (auto simp: zero_or_nan_cases dadd_def)

lemma zn_dneg: "zero_or_nan a \<Longrightarrow> zero_or_nan (dneg a)"
  by (auto simp: zero_or_nan_cases)

lemma zn_dsub: "zero_or_nan a \<Longrightarrow> zero_or_nan b \<Longrightarrow> zero_or_nan (dsub a b)"
  by (simp add: dsub_def zn_dadd zn_dneg)

lemma zn_ddiv: "zero_or_nan a \<Longrightarrow> zero_or_nan (ddiv a b)"
  by (cases b) (auto simp: zero_or_nan_cases ddiv_def fin_of_def zero_of_def)

lemma zn_dpow: "zero_or_nan a \<Longrightarrow> 0 < n \<Longrightarrow> zero_or_nan (dpow a n)"
  by (auto simp: zero_or_nan_cases dpow_def)

lemma zn_not_converged: "zero_or_nan b \<Longrightarrow> \<not> converged (a, b)"
  by (cases a) (auto simp: zero_or_nan_cases converged_def ddiv_def dlt_def inf_of_def)

lemma integrator_G_value:
  "integrator_G n beta X = Some (Inr g) \<Longrightarrow> \<exists>cn. g = dmul (dpow X (unat n)) cn"
  by (auto simp: integrator_G_def bnd_eq_Some_Inr ret_def)

lemma integrator_G_no_fault: "n \<le> 5 \<Longrightarrow> integrator_G n beta X \<noteq> Some (Inl e)"
  using c_no_fault [of n "dmul (dmul beta X) X" "Inl e"]
  by (auto simp: integrator_G_def ret_def elim!: bnd_SomeE)

lemma newton_step_no_fault: "newton_step r0 eta zeta beta h X \<noteq> Some (Inl e)"
  using integrator_G_no_fault [of 1 beta X] integrator_G_no_fault [of 2 beta X]
    integrator_G_no_fault [of 3 beta X]
  by (auto simp: newton_step_def Let_def ret_def elim!: bnd_SomeE)

lemma newton_step_zero:
  assumes "newton_step r0 eta zeta beta h X = Some (Inr d)" and "zero_or_nan h" and "zero_or_nan X"
  shows "zero_or_nan (snd d)" and "\<not> converged d"
proof -
  from assms(1) obtain G1 G2 G3 where
    g: "integrator_G 1 beta X = Some (Inr G1)" "integrator_G 2 beta X = Some (Inr G2)"
       "integrator_G 3 beta X = Some (Inr G3)"
    and d: "d = (dneg (ddiv (kepler_s r0 eta zeta h G2 G3 X) (kepler_sp r0 eta zeta G1 G2)),
                 dsub X (ddiv (kepler_s r0 eta zeta h G2 G3 X) (kepler_sp r0 eta zeta G1 G2)))"
    by (auto simp: newton_step_def bnd_eq_Some_Inr ret_def Let_def)
  have "zero_or_nan G2" "zero_or_nan G3"
    using integrator_G_value [OF g(2)] integrator_G_value [OF g(3)] assms(3)
    by (auto intro!: zn_dmul_left zn_dpow)
  then have "zero_or_nan (kepler_s r0 eta zeta h G2 G3 X)"
    using assms(2,3) by (simp add: kepler_s_def zn_dsub zn_dadd zn_dmul_right)
  then show z: "zero_or_nan (snd d)"
    using assms(3) by (simp add: d zn_dsub zn_ddiv)
  show "\<not> converged d"
    using zn_not_converged [of "snd d" "fst d"] z by simp
qed

lemma newton_loop_zero_dt:
  assumes "zero_or_nan h" and "zero_or_nan X"
  shows "newton_loop r0 eta zeta beta h X = None"
proof (cases "newton_loop r0 eta zeta beta h X")
  case None
  then show ?thesis .
next
  case (Some r)
  have "zero_or_nan h \<longrightarrow> zero_or_nan X \<longrightarrow> False"
  proof (rule newton_loop.raw_induct [where P = "\<lambda>r0 eta zeta beta h X r.
      zero_or_nan h \<longrightarrow> zero_or_nan X \<longrightarrow> False", OF _ Some], goal_cases)
    case (1 f r0 eta zeta beta h X r)
    show ?case
    proof (intro impI)
      assume h: "zero_or_nan h" and x: "zero_or_nan X"
      from 1(2) show False
        unfolding newton_body_step
      proof (cases rule: bnd_SomeE)
        case (fault e)
        then show False by (simp add: newton_step_no_fault)
      next
        case (val d)
        note z = newton_step_zero [OF val(1) h x]
        from val(2) z(2) have "f r0 eta zeta beta h (snd d) = Some r" by simp
        from 1(1) [OF this] h z(1) show False by simp
      qed
    qed
  qed
  with assms show ?thesis by simp
qed

lemma kepler_step_zero_dt:
  assumes "is_zero (dt s)" and "0 \<le> i" and "i < int (length (particles s))"
  shows "kepler_step s i = None"
proof -
  have p: "lift (particle_at s 0) = Some (Inr (particles s ! 0))"
    "lift (particle_at s i) = Some (Inr (particles s ! nat i))"
    using assms(2,3) by (auto simp: lift_def particle_at_def)
  have "zero_or_nan (dt s)" "zero_or_nan (Fin 0)"
    using assms(1) by (simp_all add: zero_or_nan_def)
  then show ?thesis
    unfolding kepler_step_unfold by (simp add: p newton_loop_zero_dt)
qed

lemma ex_newton_step_zero:
  "newton_step (Fin 1) (Fin 0) (Fin 0) (Fin 1) (Fin (1 / 2)) (Fin 0) = Some (Inr (Fin (1 / 2), Fin (1 / 2)))"
  by (simp add: newton_step_def ex_G_zero Let_def kepler_s_def kepler_sp_def ret_def dbl_eval)

lemma ex_newton_step_half:
  "newton_step (Fin 1) (Fin 0) (Fin 0) (Fin 1) (Fin (1 / 2)) (Fin (1 / 2)) = Some (Inr (NZero, Fin (1 / 2)))"
  by (simp add: newton_step_def ex_G_half Let_def kepler_s_def kepler_sp_def ret_def dbl_eval)

lemma ex_newton_exit:
  "newton_exit 0 (Fin 1) (Fin 0) (Fin 0) (Fin 1) (Fin (1 / 2)) (Fin 0) = None"
  "newton_exit 1 (Fin 1) (Fin 0) (Fin 0) (Fin 1) (Fin (1 / 2)) (Fin 0) = Some (Fin (1 / 2))"
proof -
  show "newton_exit 0 (Fin 1) (Fin 0) (Fin 0) (Fin 1) (Fin (1 / 2)) (Fin 0) = None"
    by (simp add: newton_exit_0 ex_newton_step_zero converged_def dbl_eval)
  have "newton_exit (Suc 0) (Fin 1) (Fin 0) (Fin 0) (Fin 1) (Fin (1 / 2)) (Fin 0) =
        newton_exit 0 (Fin 1) (Fin 0) (Fin 0) (Fin 1) (Fin (1 / 2)) (Fin (1 / 2))"
    using newton_exit_Suc [OF ex_newton_step_zero, of 0] by simp
  also have "\<dots> = Some (Fin (1 / 2))"
    by (simp add: newton_exit_0 ex_newton_step_half converged_def dbl_eval)
  finally show "newton_exit 1 (Fin 1) (Fin 0) (Fin 0) (Fin 1) (Fin (1 / 2)) (Fin 0) = Some (Fin (1 / 2))"
    by simp
qed

section \<open>The claims\<close>

text \<open>
  Claim C1. With \<open>dt = 0\<close> the step of the body of the example does not leave the state
  unchanged: it never returns. The first pass of the loop gives \<open>s = 0\<close> and the
  increment \<open>-0/r0\<close>, the new \<open>X\<close> is 0, the quotient \<open>dX/X\<close> is \<open>0/0\<close>, a NaN,
  the test \<open>fabs(dX/X) < 1e-15\<close> is false, and the next pass starts from the same
  \<open>X = 0\<close>.
\<close>

theorem kepler_step_zero_dt_never_returns: "kepler_step ex_state_zero_dt 1 = None"
  by (rule kepler_step_zero_dt) (simp_all add: ex_state_zero_dt_def)

text \<open>
  Claim C2. For an index inside the array, when the loop started at \<open>X = 0\<close> returns
  \<open>X\<close> and \<open>integrator_G\<close> returns \<open>G1, G2, G3\<close> at this \<open>X\<close>, the step returns,
  and in the state it returns the velocity of body \<open>i\<close> is \<open>fd P + gd v\<close> in each
  component, where \<open>v\<close> is the velocity before the step and \<open>P\<close> is the position after
  the step, \<open>f x + g v\<close>, that the assignments before have written.
\<close>

theorem kepler_step_velocity:
  assumes i: "0 \<le> i" "i < int (length (particles s))"
    and M: "M = p_m (particles s ! 0)" and p: "p = particles s ! nat i"
    and inv: "r0 = kepler_r0 p" "eta = kepler_eta p" "beta = kepler_beta M p"
      "zeta = kepler_zeta M p"
    and X: "newton_loop r0 eta zeta beta (dt s) (Fin 0) = Some (Inr X)"
    and G: "integrator_G 1 beta X = Some (Inr G1)" "integrator_G 2 beta X = Some (Inr G2)"
      "integrator_G 3 beta X = Some (Inr G3)"
    and co: "r = gauss_r r0 eta zeta G1 G2" "f = gauss_f M r0 G2" "g = gauss_g (dt s) M G3"
      "fd = gauss_fd M r0 r G1" "gd = gauss_gd M r G2"
  shows "\<exists>s'. kepler_step s i = Some (Inr s') \<and>
           p_x (particles s' ! nat i) = dadd (dmul f (p_x p)) (dmul g (p_vx p)) \<and>
           p_y (particles s' ! nat i) = dadd (dmul f (p_y p)) (dmul g (p_vy p)) \<and>
           p_z (particles s' ! nat i) = dadd (dmul f (p_z p)) (dmul g (p_vz p)) \<and>
           p_vx (particles s' ! nat i) =
             dadd (dmul fd (p_x (particles s' ! nat i))) (dmul gd (p_vx p)) \<and>
           p_vy (particles s' ! nat i) =
             dadd (dmul fd (p_y (particles s' ! nat i))) (dmul gd (p_vy p)) \<and>
           p_vz (particles s' ! nat i) =
             dadd (dmul fd (p_z (particles s' ! nat i))) (dmul gd (p_vz p))"
proof -
  have n: "nat i < length (particles s)" using i by simp
  have st: "kepler_step s i = Some (Inr (gauss_update s i f g fd gd))"
    using kepler_step_returns [OF i, of X G1 G2 G3] X G unfolding M p inv co by simp
  show ?thesis
    unfolding st by (simp add: gauss_update_self [OF n] Let_def p)
qed

theorem kepler_step_velocity_witness:
  "(0 :: int) \<le> 1 \<and> (1 :: int) < int (length (particles ex_state)) \<and>
   newton_loop (kepler_r0 ex_planet) (kepler_eta ex_planet) (kepler_zeta (Fin 1) ex_planet)
     (kepler_beta (Fin 1) ex_planet) (dt ex_state) (Fin 0) = Some (Inr (Fin (1 / 2))) \<and>
   integrator_G 1 (kepler_beta (Fin 1) ex_planet) (Fin (1 / 2)) = Some (Inr (Fin (22351136265295433153 / 46620662575398912000))) \<and>
   integrator_G 2 (kepler_beta (Fin 1) ex_planet) (Fin (1 / 2)) = Some (Inr (Fin (23979756619553417 / 195885136871424000))) \<and>
   integrator_G 3 (kepler_beta (Fin 1) ex_planet) (Fin (1 / 2)) = Some (Inr (Fin (959195022404022847 / 46620662575398912000))) \<and>
   kepler_step ex_state 1 = Some (Inr ex_state_after) \<and>
   p_vy ex_planet_after =
     dadd (dmul (Fin (- (22351136265295433153 / 46620662575398912000))) (p_y ex_planet_after)) (dmul (Fin (171905380251870583 / 195885136871424000)) (p_vy ex_planet)) \<and>
   p_vy ex_planet_after \<noteq>
     dadd (dmul (Fin (- (22351136265295433153 / 46620662575398912000))) (p_y ex_planet)) (dmul (Fin (171905380251870583 / 195885136871424000)) (p_vy ex_planet))"
proof -
  have h: "(0 :: int) \<le> 1" "(1 :: int) < int (length (particles ex_state))"
    "Fin 1 = p_m (particles ex_state ! 0)" "ex_planet = particles ex_state ! nat 1"
    "Fin 1 = kepler_r0 ex_planet" "Fin 0 = kepler_eta ex_planet"
    "Fin 1 = kepler_beta (Fin 1) ex_planet" "Fin 0 = kepler_zeta (Fin 1) ex_planet"
    "newton_loop (Fin 1) (Fin 0) (Fin 0) (Fin 1) (dt ex_state) (Fin 0) = Some (Inr (Fin (1 / 2)))"
    "integrator_G 1 (Fin 1) (Fin (1 / 2)) = Some (Inr (Fin (22351136265295433153 / 46620662575398912000)))"
    "integrator_G 2 (Fin 1) (Fin (1 / 2)) = Some (Inr (Fin (23979756619553417 / 195885136871424000)))"
    "integrator_G 3 (Fin 1) (Fin (1 / 2)) = Some (Inr (Fin (959195022404022847 / 46620662575398912000)))"
    "Fin 1 = gauss_r (Fin 1) (Fin 0) (Fin 0) (Fin (22351136265295433153 / 46620662575398912000)) (Fin (23979756619553417 / 195885136871424000))"
    "Fin (171905380251870583 / 195885136871424000) = gauss_f (Fin 1) (Fin 1) (Fin (23979756619553417 / 195885136871424000))"
    "Fin (22351136265295433153 / 46620662575398912000) = gauss_g (dt ex_state) (Fin 1) (Fin (959195022404022847 / 46620662575398912000))"
    "Fin (- (22351136265295433153 / 46620662575398912000)) = gauss_fd (Fin 1) (Fin 1) (Fin 1) (Fin (22351136265295433153 / 46620662575398912000))"
    "Fin (171905380251870583 / 195885136871424000) = gauss_gd (Fin 1) (Fin 1) (Fin (23979756619553417 / 195885136871424000))"
    by (simp_all add: ex_state_def ex_sun_def ex_invariants ex_newton ex_G_half ex_gauss_coefficients)
  have w: "newton_loop (kepler_r0 ex_planet) (kepler_eta ex_planet) (kepler_zeta (Fin 1) ex_planet)
     (kepler_beta (Fin 1) ex_planet) (dt ex_state) (Fin 0) = Some (Inr (Fin (1 / 2)))"
    "integrator_G 1 (kepler_beta (Fin 1) ex_planet) (Fin (1 / 2)) = Some (Inr (Fin (22351136265295433153 / 46620662575398912000)))"
    "integrator_G 2 (kepler_beta (Fin 1) ex_planet) (Fin (1 / 2)) = Some (Inr (Fin (23979756619553417 / 195885136871424000)))"
    "integrator_G 3 (kepler_beta (Fin 1) ex_planet) (Fin (1 / 2)) = Some (Inr (Fin (959195022404022847 / 46620662575398912000)))"
    by (simp_all add: ex_state_fields ex_invariants ex_newton ex_G_half)
  from kepler_step_velocity [OF h]
  obtain s' where s': "kepler_step ex_state 1 = Some (Inr s')"
    and v: "p_vy (particles s' ! nat 1) =
      dadd (dmul (Fin (- (22351136265295433153 / 46620662575398912000))) (p_y (particles s' ! nat 1))) (dmul (Fin (171905380251870583 / 195885136871424000)) (p_vy ex_planet))"
    by blast
  from s' have e: "s' = ex_state_after" by (simp add: ex_kepler_step)
  have v': "p_vy ex_planet_after =
     dadd (dmul (Fin (- (22351136265295433153 / 46620662575398912000))) (p_y ex_planet_after)) (dmul (Fin (171905380251870583 / 195885136871424000)) (p_vy ex_planet))"
    using v unfolding e ex_state_fields(7) .
  have d: "p_vy ex_planet_after \<noteq>
     dadd (dmul (Fin (- (22351136265295433153 / 46620662575398912000))) (p_y ex_planet)) (dmul (Fin (171905380251870583 / 195885136871424000)) (p_vy ex_planet))"
    by (simp add: ex_planet_after_def ex_planet_def dbl_eval)
  show ?thesis
    by (intro conjI) (rule h(1) h(2) w s' [unfolded e] v' d)+
qed

text \<open>
  Claim C3. The loop returns \<open>Y\<close> exactly when some step of Newton's method for
  \<open>s(X) = 0\<close>, with \<open>X - s/sp\<close> for the new \<open>X\<close>, is the first to converge and gives
  \<open>Y\<close>, whatever the number of steps before it. For an index inside the array,
  \<open>kepler_step\<close> returns a state exactly when such a first step exists for the loop
  started at \<open>X = 0\<close> with the invariants of the body and \<open>integrator_G\<close> returns at the
  \<open>Y\<close> of this step; the state is then the one the assignments give from this \<open>Y\<close>. So
  the step returns no state when no step of the iteration converges.
\<close>

theorem newton_iteration:
  "(newton_loop r0 eta zeta beta h X0 = Some (Inr Y) \<longleftrightarrow>
      (\<exists>k. newton_exit k r0 eta zeta beta h X0 = Some Y \<and>
           (\<forall>j<k. newton_exit j r0 eta zeta beta h X0 = None))) \<and>
   (0 \<le> i \<and> i < int (length (particles s)) \<longrightarrow>
      (let M = p_m (particles s ! 0); p = particles s ! nat i;
           a = kepler_r0 p; b = kepler_eta p; w = kepler_beta M p; e = kepler_zeta M p
       in (kepler_step s i = Some (Inr s')) =
          (\<exists>k X G1 G2 G3.
             newton_exit k a b e w (dt s) (Fin 0) = Some X \<and>
             (\<forall>j<k. newton_exit j a b e w (dt s) (Fin 0) = None) \<and>
             integrator_G 1 w X = Some (Inr G1) \<and>
             integrator_G 2 w X = Some (Inr G2) \<and>
             integrator_G 3 w X = Some (Inr G3) \<and>
             s' = gauss_update s i (gauss_f M a G2) (gauss_g (dt s) M G3)
                    (gauss_fd M a (gauss_r a b e G1 G2) G1)
                    (gauss_gd M (gauss_r a b e G1 G2) G2))))"
proof (intro conjI impI)
  show "newton_loop r0 eta zeta beta h X0 = Some (Inr Y) \<longleftrightarrow>
      (\<exists>k. newton_exit k r0 eta zeta beta h X0 = Some Y \<and>
           (\<forall>j<k. newton_exit j r0 eta zeta beta h X0 = None))"
    by (rule newton_loop_Some_iff)
next
  assume "0 \<le> i \<and> i < int (length (particles s))"
  then have i: "0 \<le> i" "i < int (length (particles s))" by simp_all
  show "let M = p_m (particles s ! 0); p = particles s ! nat i;
           a = kepler_r0 p; b = kepler_eta p; w = kepler_beta M p; e = kepler_zeta M p
       in (kepler_step s i = Some (Inr s')) =
          (\<exists>k X G1 G2 G3.
             newton_exit k a b e w (dt s) (Fin 0) = Some X \<and>
             (\<forall>j<k. newton_exit j a b e w (dt s) (Fin 0) = None) \<and>
             integrator_G 1 w X = Some (Inr G1) \<and>
             integrator_G 2 w X = Some (Inr G2) \<and>
             integrator_G 3 w X = Some (Inr G3) \<and>
             s' = gauss_update s i (gauss_f M a G2) (gauss_g (dt s) M G3)
                    (gauss_fd M a (gauss_r a b e G1 G2) G1)
                    (gauss_gd M (gauss_r a b e G1 G2) G2))"
    unfolding Let_def kepler_step_Some_iff [OF i] newton_loop_Some_iff by blast
qed

theorem newton_iteration_witness:
  "newton_exit 0 (Fin 1) (Fin 0) (Fin 0) (Fin 1) (Fin (1 / 2)) (Fin 0) = None \<and>
   newton_exit 1 (Fin 1) (Fin 0) (Fin 0) (Fin 1) (Fin (1 / 2)) (Fin 0) = Some (Fin (1 / 2)) \<and>
   newton_loop (Fin 1) (Fin 0) (Fin 0) (Fin 1) (Fin (1 / 2)) (Fin 0) = Some (Inr (Fin (1 / 2))) \<and>
   (0 :: int) \<le> 1 \<and> (1 :: int) < int (length (particles ex_state)) \<and>
   newton_exit 1 (kepler_r0 ex_planet) (kepler_eta ex_planet) (kepler_zeta (Fin 1) ex_planet)
     (kepler_beta (Fin 1) ex_planet) (dt ex_state) (Fin 0) = Some (Fin (1 / 2)) \<and>
   newton_exit 0 (kepler_r0 ex_planet) (kepler_eta ex_planet) (kepler_zeta (Fin 1) ex_planet)
     (kepler_beta (Fin 1) ex_planet) (dt ex_state) (Fin 0) = None \<and>
   integrator_G 1 (kepler_beta (Fin 1) ex_planet) (Fin (1 / 2)) = Some (Inr (Fin (22351136265295433153 / 46620662575398912000))) \<and>
   integrator_G 2 (kepler_beta (Fin 1) ex_planet) (Fin (1 / 2)) = Some (Inr (Fin (23979756619553417 / 195885136871424000))) \<and>
   integrator_G 3 (kepler_beta (Fin 1) ex_planet) (Fin (1 / 2)) = Some (Inr (Fin (959195022404022847 / 46620662575398912000))) \<and>
   kepler_step ex_state 1 = Some (Inr ex_state_after)"
proof -
  have e: "newton_exit 1 (Fin 1) (Fin 0) (Fin 0) (Fin 1) (Fin (1 / 2)) (Fin 0) = Some (Fin (1 / 2)) \<and>
    (\<forall>j<1. newton_exit j (Fin 1) (Fin 0) (Fin 0) (Fin 1) (Fin (1 / 2)) (Fin 0) = None)"
    using ex_newton_exit by simp
  note th = newton_iteration [where ?r0.0 = "Fin 1" and eta = "Fin 0" and zeta = "Fin 0"
      and beta = "Fin 1" and h = "Fin (1 / 2)" and ?X0.0 = "Fin 0" and Y = "Fin (1 / 2)"
      and i = 1 and s = ex_state and s' = ex_state_after]
  have "\<exists>k. newton_exit k (Fin 1) (Fin 0) (Fin 0) (Fin 1) (Fin (1 / 2)) (Fin 0) = Some (Fin (1 / 2)) \<and>
    (\<forall>j<k. newton_exit j (Fin 1) (Fin 0) (Fin 0) (Fin 1) (Fin (1 / 2)) (Fin 0) = None)"
    using e by (rule exI [of _ 1])
  then have l: "newton_loop (Fin 1) (Fin 0) (Fin 0) (Fin 1) (Fin (1 / 2)) (Fin 0) = Some (Inr (Fin (1 / 2)))"
    by (rule iffD2 [OF conjunct1 [OF th]])
  have v: "(0 :: int) \<le> 1 \<and> (1 :: int) < int (length (particles ex_state))"
    by (simp add: ex_state_def)
  have x: "newton_exit 1 (kepler_r0 ex_planet) (kepler_eta ex_planet) (kepler_zeta (Fin 1) ex_planet)
     (kepler_beta (Fin 1) ex_planet) (dt ex_state) (Fin 0) = Some (Fin (1 / 2))"
    "newton_exit 0 (kepler_r0 ex_planet) (kepler_eta ex_planet) (kepler_zeta (Fin 1) ex_planet)
     (kepler_beta (Fin 1) ex_planet) (dt ex_state) (Fin 0) = None"
    "integrator_G 1 (kepler_beta (Fin 1) ex_planet) (Fin (1 / 2)) = Some (Inr (Fin (22351136265295433153 / 46620662575398912000)))"
    "integrator_G 2 (kepler_beta (Fin 1) ex_planet) (Fin (1 / 2)) = Some (Inr (Fin (23979756619553417 / 195885136871424000)))"
    "integrator_G 3 (kepler_beta (Fin 1) ex_planet) (Fin (1 / 2)) = Some (Inr (Fin (959195022404022847 / 46620662575398912000)))"
    using ex_newton_exit by (simp_all add: ex_state_fields ex_invariants ex_G_half)
  have u: "ex_state_after = gauss_update ex_state 1
      (gauss_f (Fin 1) (kepler_r0 ex_planet) (Fin (23979756619553417 / 195885136871424000)))
      (gauss_g (dt ex_state) (Fin 1) (Fin (959195022404022847 / 46620662575398912000)))
      (gauss_fd (Fin 1) (kepler_r0 ex_planet)
         (gauss_r (kepler_r0 ex_planet) (kepler_eta ex_planet) (kepler_zeta (Fin 1) ex_planet)
            (Fin (22351136265295433153 / 46620662575398912000)) (Fin (23979756619553417 / 195885136871424000))) (Fin (22351136265295433153 / 46620662575398912000)))
      (gauss_gd (Fin 1)
         (gauss_r (kepler_r0 ex_planet) (kepler_eta ex_planet) (kepler_zeta (Fin 1) ex_planet)
            (Fin (22351136265295433153 / 46620662575398912000)) (Fin (23979756619553417 / 195885136871424000))) (Fin (23979756619553417 / 195885136871424000)))"
    by (simp add: ex_state_fields ex_invariants ex_gauss_coefficients ex_gauss_update)
  have n: "\<forall>j<1. newton_exit j (kepler_r0 ex_planet) (kepler_eta ex_planet)
     (kepler_zeta (Fin 1) ex_planet) (kepler_beta (Fin 1) ex_planet) (dt ex_state) (Fin 0) = None"
    using x(2) by simp
  from mp [OF conjunct2 [OF th] v]
  have "(kepler_step ex_state 1 = Some (Inr ex_state_after)) =
        (\<exists>k X G1 G2 G3.
           newton_exit k (kepler_r0 ex_planet) (kepler_eta ex_planet) (kepler_zeta (Fin 1) ex_planet)
             (kepler_beta (Fin 1) ex_planet) (dt ex_state) (Fin 0) = Some X \<and>
           (\<forall>j<k. newton_exit j (kepler_r0 ex_planet) (kepler_eta ex_planet)
              (kepler_zeta (Fin 1) ex_planet) (kepler_beta (Fin 1) ex_planet) (dt ex_state) (Fin 0) = None) \<and>
           integrator_G 1 (kepler_beta (Fin 1) ex_planet) X = Some (Inr G1) \<and>
           integrator_G 2 (kepler_beta (Fin 1) ex_planet) X = Some (Inr G2) \<and>
           integrator_G 3 (kepler_beta (Fin 1) ex_planet) X = Some (Inr G3) \<and>
           ex_state_after = gauss_update ex_state 1
             (gauss_f (Fin 1) (kepler_r0 ex_planet) G2) (gauss_g (dt ex_state) (Fin 1) G3)
             (gauss_fd (Fin 1) (kepler_r0 ex_planet)
                (gauss_r (kepler_r0 ex_planet) (kepler_eta ex_planet) (kepler_zeta (Fin 1) ex_planet) G1 G2) G1)
             (gauss_gd (Fin 1)
                (gauss_r (kepler_r0 ex_planet) (kepler_eta ex_planet) (kepler_zeta (Fin 1) ex_planet) G1 G2) G2))"
    unfolding Let_def ex_state_fields(1,2,4) .
  moreover have "\<exists>k X G1 G2 G3.
           newton_exit k (kepler_r0 ex_planet) (kepler_eta ex_planet) (kepler_zeta (Fin 1) ex_planet)
             (kepler_beta (Fin 1) ex_planet) (dt ex_state) (Fin 0) = Some X \<and>
           (\<forall>j<k. newton_exit j (kepler_r0 ex_planet) (kepler_eta ex_planet)
              (kepler_zeta (Fin 1) ex_planet) (kepler_beta (Fin 1) ex_planet) (dt ex_state) (Fin 0) = None) \<and>
           integrator_G 1 (kepler_beta (Fin 1) ex_planet) X = Some (Inr G1) \<and>
           integrator_G 2 (kepler_beta (Fin 1) ex_planet) X = Some (Inr G2) \<and>
           integrator_G 3 (kepler_beta (Fin 1) ex_planet) X = Some (Inr G3) \<and>
           ex_state_after = gauss_update ex_state 1
             (gauss_f (Fin 1) (kepler_r0 ex_planet) G2) (gauss_g (dt ex_state) (Fin 1) G3)
             (gauss_fd (Fin 1) (kepler_r0 ex_planet)
                (gauss_r (kepler_r0 ex_planet) (kepler_eta ex_planet) (kepler_zeta (Fin 1) ex_planet) G1 G2) G1)
             (gauss_gd (Fin 1)
                (gauss_r (kepler_r0 ex_planet) (kepler_eta ex_planet) (kepler_zeta (Fin 1) ex_planet) G1 G2) G2)"
    by (intro exI [of _ 1] exI [of _ "Fin (1 / 2)"] exI [of _ "Fin (22351136265295433153 / 46620662575398912000)"] exI [of _ "Fin (23979756619553417 / 195885136871424000)"]
        exI [of _ "Fin (959195022404022847 / 46620662575398912000)"] conjI) (rule x(1) n x(3) x(4) x(5) u)+
  ultimately have k: "kepler_step ex_state 1 = Some (Inr ex_state_after)" by (rule iffD2)
  show ?thesis
    by (intro conjI) (rule ex_newton_exit l conjunct1 [OF v] conjunct2 [OF v] x k)+
qed

text \<open>
  Claim C4. For an index inside the array, when the loop started at \<open>X = 0\<close> has
  returned \<open>X\<close> and \<open>integrator_G\<close> returns \<open>G1, G2, G3\<close> at this \<open>X\<close>, the step
  returns the state that the assignments give with \<open>r\<close>, \<open>f\<close>, \<open>g\<close>, \<open>fd\<close>, \<open>gd\<close>
  computed from them, and in it the position of body \<open>i\<close> is \<open>f x + g v\<close> in each
  component, for the position \<open>x\<close> and the velocity \<open>v\<close> before the step.
\<close>

theorem kepler_step_position:
  assumes i: "0 \<le> i" "i < int (length (particles s))"
    and M: "M = p_m (particles s ! 0)" and p: "p = particles s ! nat i"
    and inv: "r0 = kepler_r0 p" "eta = kepler_eta p" "beta = kepler_beta M p"
      "zeta = kepler_zeta M p"
    and X: "newton_loop r0 eta zeta beta (dt s) (Fin 0) = Some (Inr X)"
    and G: "integrator_G 1 beta X = Some (Inr G1)" "integrator_G 2 beta X = Some (Inr G2)"
      "integrator_G 3 beta X = Some (Inr G3)"
    and co: "r = gauss_r r0 eta zeta G1 G2" "f = gauss_f M r0 G2" "g = gauss_g (dt s) M G3"
      "fd = gauss_fd M r0 r G1" "gd = gauss_gd M r G2"
  shows "\<exists>s'. kepler_step s i = Some (Inr s') \<and> s' = gauss_update s i f g fd gd \<and>
           p_x (particles s' ! nat i) = dadd (dmul f (p_x p)) (dmul g (p_vx p)) \<and>
           p_y (particles s' ! nat i) = dadd (dmul f (p_y p)) (dmul g (p_vy p)) \<and>
           p_z (particles s' ! nat i) = dadd (dmul f (p_z p)) (dmul g (p_vz p))"
proof -
  have n: "nat i < length (particles s)" using i by simp
  have st: "kepler_step s i = Some (Inr (gauss_update s i f g fd gd))"
    using kepler_step_returns [OF i, of X G1 G2 G3] X G unfolding M p inv co by simp
  show ?thesis
    unfolding st by (simp add: gauss_update_self [OF n] Let_def p)
qed

theorem kepler_step_position_witness:
  "(0 :: int) \<le> 1 \<and> (1 :: int) < int (length (particles ex_state)) \<and>
   newton_loop (kepler_r0 ex_planet) (kepler_eta ex_planet) (kepler_zeta (Fin 1) ex_planet)
     (kepler_beta (Fin 1) ex_planet) (dt ex_state) (Fin 0) = Some (Inr (Fin (1 / 2))) \<and>
   integrator_G 1 (kepler_beta (Fin 1) ex_planet) (Fin (1 / 2)) = Some (Inr (Fin (22351136265295433153 / 46620662575398912000))) \<and>
   integrator_G 2 (kepler_beta (Fin 1) ex_planet) (Fin (1 / 2)) = Some (Inr (Fin (23979756619553417 / 195885136871424000))) \<and>
   integrator_G 3 (kepler_beta (Fin 1) ex_planet) (Fin (1 / 2)) = Some (Inr (Fin (959195022404022847 / 46620662575398912000))) \<and>
   kepler_step ex_state 1 = Some (Inr ex_state_after) \<and>
   p_x ex_planet_after = dadd (dmul (Fin (171905380251870583 / 195885136871424000)) (p_x ex_planet)) (dmul (Fin (22351136265295433153 / 46620662575398912000)) (p_vx ex_planet)) \<and>
   p_y ex_planet_after = dadd (dmul (Fin (171905380251870583 / 195885136871424000)) (p_y ex_planet)) (dmul (Fin (22351136265295433153 / 46620662575398912000)) (p_vy ex_planet)) \<and>
   p_z ex_planet_after = dadd (dmul (Fin (171905380251870583 / 195885136871424000)) (p_z ex_planet)) (dmul (Fin (22351136265295433153 / 46620662575398912000)) (p_vz ex_planet))"
proof -
  have h: "(0 :: int) \<le> 1" "(1 :: int) < int (length (particles ex_state))"
    "Fin 1 = p_m (particles ex_state ! 0)" "ex_planet = particles ex_state ! nat 1"
    "Fin 1 = kepler_r0 ex_planet" "Fin 0 = kepler_eta ex_planet"
    "Fin 1 = kepler_beta (Fin 1) ex_planet" "Fin 0 = kepler_zeta (Fin 1) ex_planet"
    "newton_loop (Fin 1) (Fin 0) (Fin 0) (Fin 1) (dt ex_state) (Fin 0) = Some (Inr (Fin (1 / 2)))"
    "integrator_G 1 (Fin 1) (Fin (1 / 2)) = Some (Inr (Fin (22351136265295433153 / 46620662575398912000)))"
    "integrator_G 2 (Fin 1) (Fin (1 / 2)) = Some (Inr (Fin (23979756619553417 / 195885136871424000)))"
    "integrator_G 3 (Fin 1) (Fin (1 / 2)) = Some (Inr (Fin (959195022404022847 / 46620662575398912000)))"
    "Fin 1 = gauss_r (Fin 1) (Fin 0) (Fin 0) (Fin (22351136265295433153 / 46620662575398912000)) (Fin (23979756619553417 / 195885136871424000))"
    "Fin (171905380251870583 / 195885136871424000) = gauss_f (Fin 1) (Fin 1) (Fin (23979756619553417 / 195885136871424000))"
    "Fin (22351136265295433153 / 46620662575398912000) = gauss_g (dt ex_state) (Fin 1) (Fin (959195022404022847 / 46620662575398912000))"
    "Fin (- (22351136265295433153 / 46620662575398912000)) = gauss_fd (Fin 1) (Fin 1) (Fin 1) (Fin (22351136265295433153 / 46620662575398912000))"
    "Fin (171905380251870583 / 195885136871424000) = gauss_gd (Fin 1) (Fin 1) (Fin (23979756619553417 / 195885136871424000))"
    by (simp_all add: ex_state_def ex_sun_def ex_invariants ex_newton ex_G_half ex_gauss_coefficients)
  have w: "newton_loop (kepler_r0 ex_planet) (kepler_eta ex_planet) (kepler_zeta (Fin 1) ex_planet)
     (kepler_beta (Fin 1) ex_planet) (dt ex_state) (Fin 0) = Some (Inr (Fin (1 / 2)))"
    "integrator_G 1 (kepler_beta (Fin 1) ex_planet) (Fin (1 / 2)) = Some (Inr (Fin (22351136265295433153 / 46620662575398912000)))"
    "integrator_G 2 (kepler_beta (Fin 1) ex_planet) (Fin (1 / 2)) = Some (Inr (Fin (23979756619553417 / 195885136871424000)))"
    "integrator_G 3 (kepler_beta (Fin 1) ex_planet) (Fin (1 / 2)) = Some (Inr (Fin (959195022404022847 / 46620662575398912000)))"
    by (simp_all add: ex_state_fields ex_invariants ex_newton ex_G_half)
  from kepler_step_position [OF h]
  obtain s' where s': "kepler_step ex_state 1 = Some (Inr s')"
    and u: "s' = gauss_update ex_state 1 (Fin (171905380251870583 / 195885136871424000)) (Fin (22351136265295433153 / 46620662575398912000)) (Fin (- (22351136265295433153 / 46620662575398912000))) (Fin (171905380251870583 / 195885136871424000))"
    and x: "p_x (particles s' ! nat 1) = dadd (dmul (Fin (171905380251870583 / 195885136871424000)) (p_x ex_planet)) (dmul (Fin (22351136265295433153 / 46620662575398912000)) (p_vx ex_planet))"
      "p_y (particles s' ! nat 1) = dadd (dmul (Fin (171905380251870583 / 195885136871424000)) (p_y ex_planet)) (dmul (Fin (22351136265295433153 / 46620662575398912000)) (p_vy ex_planet))"
      "p_z (particles s' ! nat 1) = dadd (dmul (Fin (171905380251870583 / 195885136871424000)) (p_z ex_planet)) (dmul (Fin (22351136265295433153 / 46620662575398912000)) (p_vz ex_planet))"
    by blast
  have e: "s' = ex_state_after" using u by (simp only: ex_gauss_update)
  show ?thesis
    by (intro conjI)
       (rule h(1) h(2) w s' [unfolded e] x [unfolded e ex_state_fields(7)])+
qed

text \<open>
  Claim C5. For an argument that is not above \<open>0.5\<close> (every \<open>z \<le> 0.5\<close>, so every
  negative \<open>z\<close>) \<open>c n z\<close> is the value of \<open>c_n_series n z\<close>, for every \<open>n\<close> and so for
  \<open>n\<close> from 0 to 5. For \<open>z > 0.5\<close> the values for \<open>n\<close> from 0 to 5 obey the recurrences
  \<open>c4(z) = c3(z/4)(1 + c1(z/4))/8\<close>, \<open>c2(z) = 1/2 - z c4(z)\<close>, \<open>c0(z) = 1 - z c2(z)\<close>,
  \<open>c5(z) = (c5(z/4) + c4(z/4) + c3(z/4) c2(z/4))/16\<close>, \<open>c3(z) = 1/6 - z c5(z)\<close>,
  \<open>c1(z) = 1 - z c3(z)\<close>, and every recursive call is made at \<open>z/4\<close>.
\<close>

theorem c_quadrupling:
  "(\<not> dgt z (Fin (1 / 2)) \<longrightarrow> c n z = lift (c_n_series n z)) \<and>
   (dgt z (Fin (1 / 2)) \<longrightarrow>
      c 4 z = bnd (c 3 (ddiv z (Fin 4))) (\<lambda>c3. bnd (c 1 (ddiv z (Fin 4))) (\<lambda>c1.
                ret (ddiv (dmul c3 (dadd (Fin 1) c1)) (Fin 8)))) \<and>
      c 2 z = bnd (c 4 z) (\<lambda>c4. ret (dsub (ddiv (Fin 1) (Fin 2)) (dmul z c4))) \<and>
      c 0 z = bnd (c 2 z) (\<lambda>c2. ret (dsub (Fin 1) (dmul z c2))) \<and>
      c 5 z = bnd (c 5 (ddiv z (Fin 4))) (\<lambda>c5. bnd (c 4 (ddiv z (Fin 4))) (\<lambda>c4.
              bnd (c 3 (ddiv z (Fin 4))) (\<lambda>c3. bnd (c 2 (ddiv z (Fin 4))) (\<lambda>c2.
                ret (ddiv (dadd (dadd c5 c4) (dmul c3 c2)) (Fin 16)))))) \<and>
      c 3 z = bnd (c 5 z) (\<lambda>c5. ret (dsub (ddiv (Fin 1) (Fin 6)) (dmul z c5))) \<and>
      c 1 z = bnd (c 3 z) (\<lambda>c3. ret (dsub (Fin 1) (dmul z c3))))"
  using not_dgt_series [of z n] c_quarter_0 [of z] c_quarter_1 [of z] c_quarter_2 [of z]
    c_quarter_3 [of z] c_quarter_4 [of z] c_quarter_5 [of z]
  by blast

theorem c_quadrupling_witness:
  "\<not> dgt (Fin 0) (Fin (1 / 2)) \<and> c 3 (Fin 0) = lift (c_n_series 3 (Fin 0)) \<and>
   dgt (Fin 1) (Fin (1 / 2)) \<and>
   c 2 (Fin 1) = bnd (c 4 (Fin 1)) (\<lambda>c4. ret (dsub (ddiv (Fin 1) (Fin 2)) (dmul (Fin 1) c4))) \<and>
   c 1 (Fin 1) = bnd (c 3 (Fin 1)) (\<lambda>c3. ret (dsub (Fin 1) (dmul (Fin 1) c3)))"
proof -
  have lo: "\<not> dgt (Fin 0) (Fin (1 / 2))" and hi: "dgt (Fin 1) (Fin (1 / 2))"
    by (simp_all add: dgt_def dlt_def)
  show ?thesis
    using lo hi c_quadrupling [of "Fin 0" 3] c_quadrupling [of "Fin 1" 0] by blast
qed

text \<open>
  Claim C7. For \<open>n\<close> from 0 to 5 and every finite \<open>z\<close> the call \<open>c n z\<close> returns, and
  it returns a value: each level of the recursion is entered at a quarter of the
  argument, which falls to \<open>0.5\<close> or below after finitely many levels, where the series
  is evaluated.
\<close>

theorem c_terminates:
  assumes "n \<le> 5" and "is_finite z"
  shows "\<exists>v. c n z = Some (Inr v)"
proof (cases z)
  case (Fin r)
  obtain k where "2 * r < 4 ^ k"
    using real_arch_pow [of 4 "2 * r"] by auto
  then have "r \<le> 4 ^ k / 2" by simp
  then show ?thesis using c_returns_bounded assms(1) Fin by blast
next
  case NZero
  have "\<not> dgt NZero (Fin (1 / 2))" by (simp add: dgt_def dlt_def)
  then show ?thesis
    using c_n_series_no_fault [OF assms(1), of NZero] NZero by (auto simp: not_dgt_series lift_def)
qed (use assms(2) in auto)

theorem c_terminates_witness:
  "(0 :: 32 word) \<le> 5 \<and> is_finite (Fin 100) \<and> (\<exists>v. c 0 (Fin 100) = Some (Inr v))"
  using c_terminates [of 0 "Fin 100"] by simp

text \<open>
  Claim C8. The table has 35 entries. For \<open>n \<le> 5\<close> the index \<open>n + 2 j\<close> of each of the
  13 terms is at most 29 and the read is inside the table, so \<open>c_n_series\<close> never reads
  outside it; and no call of \<open>c\<close> with \<open>n \<le> 5\<close> ends in a read outside the table,
  since its recursive calls are made for \<open>n\<close> from 1 to 5 only.
\<close>

theorem table_reads_in_bounds:
  assumes "n \<le> 5"
  shows "length invfactorial = 35 \<and>
    (\<forall>j<13. series_index n j = unat n + 2 * j \<and> series_index n j \<le> 29 \<and>
             table_at (series_index n j) = Inr (invfactorial ! series_index n j)) \<and>
    (\<forall>z e. c_n_series n z \<noteq> Inl e) \<and>
    (\<forall>z e. c n z \<noteq> Some (Inl e))"
proof (intro conjI allI impI)
  show "length invfactorial = 35" by (rule length_invfactorial)
next
  fix j :: nat assume "j < 13"
  then have j: "j \<le> 12" by simp
  show "series_index n j = unat n + 2 * j" "series_index n j \<le> 29"
    using series_index_small [OF assms j] by simp_all
  then show "table_at (series_index n j) = Inr (invfactorial ! series_index n j)"
    by (simp add: table_at_def length_invfactorial)
next
  fix z e
  show "c_n_series n z \<noteq> Inl e"
    using c_n_series_no_fault [OF assms, of z] by auto
  show "c n z \<noteq> Some (Inl e)"
    using c_no_fault [of n z "Inl e"] assms by auto
qed

theorem table_reads_in_bounds_witness:
  "(5 :: 32 word) \<le> 5 \<and> (12 :: nat) < 13 \<and> length invfactorial = 35 \<and>
   series_index 5 12 = 29 \<and> table_at (series_index 5 12) = Inr (invfactorial ! series_index 5 12) \<and>
   c_n_series 5 (Fin 1) \<noteq> Inl TableIndexOutOfRange \<and>
   c 5 (Fin 1) \<noteq> Some (Inl TableIndexOutOfRange)"
proof -
  have n: "(5 :: 32 word) \<le> 5" and j: "(12 :: nat) < 13" by simp_all
  note t = table_reads_in_bounds [OF n]
  from t j have "series_index 5 12 = unat (5 :: 32 word) + 2 * 12 \<and>
      table_at (series_index 5 12) = Inr (invfactorial ! series_index 5 12)"
    by blast
  with t n j show ?thesis by simp
qed

text \<open>
  Claim C9. \<open>integrator_part2\<close> runs the Kepler step for the indices \<open>1, 2, ..., N - 1\<close>
  in this order and for no other, then adds \<open>dt\<close> to \<open>t\<close>. When it returns, body 0 is
  as before and \<open>t\<close> is the sum of the old \<open>t\<close> and of \<open>dt\<close>.
\<close>

theorem integrator_part2_effect:
  "integrator_part2 s =
     bnd (kepler_steps s [1..N s - 1]) (\<lambda>s'. ret (s'\<lparr>t := dadd (t s') (dt s')\<rparr>)) \<and>
   (\<forall>s'. integrator_part2 s = Some (Inr s') \<longrightarrow>
      particles s' ! 0 = particles s ! 0 \<and> t s' = dadd (t s) (dt s) \<and>
      dt s' = dt s \<and> N s' = N s)"
proof (intro conjI allI impI)
  show eq: "integrator_part2 s =
     bnd (kepler_steps s [1..N s - 1]) (\<lambda>s'. ret (s'\<lparr>t := dadd (t s') (dt s')\<rparr>))"
    by (simp add: integrator_part2_def part2_loop_steps)
  fix s' assume "integrator_part2 s = Some (Inr s')"
  then obtain s1 where s1: "kepler_steps s [1..N s - 1] = Some (Inr s1)"
    and s': "s' = s1\<lparr>t := dadd (t s1) (dt s1)\<rparr>"
    unfolding eq by (auto simp: bnd_eq_Some_Inr ret_def)
  have "\<forall>i \<in> set [1..N s - 1]. 1 \<le> i" by simp
  from kepler_steps_frame [OF s1 this] s'
  show "particles s' ! 0 = particles s ! 0" "t s' = dadd (t s) (dt s)" "dt s' = dt s" "N s' = N s"
    by simp_all
qed

theorem integrator_part2_effect_witness:
  "integrator_part2 ex_state = Some (Inr (ex_state_after\<lparr>t := Fin (1 / 2)\<rparr>)) \<and>
   particles (ex_state_after\<lparr>t := Fin (1 / 2)\<rparr>) ! 0 = particles ex_state ! 0 \<and>
   t (ex_state_after\<lparr>t := Fin (1 / 2)\<rparr>) = dadd (t ex_state) (dt ex_state)"
  using integrator_part2_effect [of ex_state] ex_part2 by blast

text \<open>
  Claim C10. For \<open>n \<ge> 6\<close> and \<open>z > 0.5\<close> no case of the \<open>switch\<close> applies and
  \<open>c n z\<close> is the value of \<open>c_n_series n z\<close>, the unreduced series.
\<close>

theorem c_large_index_series:
  assumes "6 \<le> n" and "dgt z (Fin (1 / 2))"
  shows "c n z = lift (c_n_series n z)"
proof -
  have "n \<noteq> 0" "n \<noteq> 1" "n \<noteq> 2" "n \<noteq> 3" "n \<noteq> 4" "n \<noteq> 5"
    using assms(1) by (auto simp: word_le_nat_alt)
  then show ?thesis
    using assms(2) by (subst c.simps) simp
qed

theorem c_large_index_series_witness:
  "(6 :: 32 word) \<le> 6 \<and> dgt (Fin 1) (Fin (1 / 2)) \<and> c 6 (Fin 1) = lift (c_n_series 6 (Fin 1))"
  using c_large_index_series [of 6 "Fin 1"] by (simp add: dgt_def dlt_def)

end
